theory Spec2Isabelle
  imports Main "HOL-Library.Sublist" "HOL-Library.AList"
begin

chapter \<open>PHPUnit test workbench: catalog synchronisation and run-result correlation\<close>

text \<open>
  A shallow embedding of the TypeScript sources \<^verbatim>\<open>runner/TestResult.ts\<close>,
  \<^verbatim>\<open>runner/TestRunner.ts\<close> and the test file loader (class \<^verbatim>\<open>TestFileLoader\<close>).
  JavaScript strings are modelled as \<^typ>\<open>string\<close>; a \<^typ>\<open>char\<close> stands for a
  code unit below 256. Values that may be \<^verbatim>\<open>undefined\<close> are options.
\<close>

section \<open>JavaScript string operations used by the sources\<close>

text \<open>
  \<^verbatim>\<open>String.prototype.trim\<close> strips white space and line terminators from both ends.
  Among the code units below 256 these are TAB, LF, VT, FF, CR, SPACE and NBSP.
\<close>

definition isWhiteSpace :: "char \<Rightarrow> bool" where
  "isWhiteSpace c =
     (c = CHR 0x09 \<or> c = CHR 0x0A \<or> c = CHR 0x0B \<or> c = CHR 0x0C \<or> c = CHR 0x0D
      \<or> c = CHR 0x20 \<or> c = CHR 0xA0)"

definition trimStart :: "string \<Rightarrow> string" where
  "trimStart s = dropWhile isWhiteSpace s"

definition trimEnd :: "string \<Rightarrow> string" where
  "trimEnd s = rev (dropWhile isWhiteSpace (rev s))"

definition trim :: "string \<Rightarrow> string" where
  "trim s = trimStart (trimEnd s)"

text \<open>
  \<^verbatim>\<open>value.replace(/pat/g, rep)\<close> for a pattern that is a literal, non-empty text:
  scan from the left; at a match emit the replacement and continue after the match.
\<close>

function replaceAll :: "string \<Rightarrow> string \<Rightarrow> string \<Rightarrow> string" where
  "replaceAll pat rep s =
     (if s = [] then []
      else if pat \<noteq> [] \<and> prefix pat s
        then rep @ replaceAll pat rep (drop (length pat) s)
        else hd s # replaceAll pat rep (tl s))"
  by pat_completeness auto
termination
  by (relation "measure (\<lambda>(pat, rep, s). length s)") auto

declare replaceAll.simps [simp del]

text \<open>
  \<^verbatim>\<open>value.replace(pat, rep)\<close> with a string pattern replaces the first occurrence only.
\<close>

fun replaceFirst :: "string \<Rightarrow> string \<Rightarrow> string \<Rightarrow> string" where
  "replaceFirst pat rep [] = (if pat = [] then rep else [])"
| "replaceFirst pat rep (c # cs) =
     (if prefix pat (c # cs) then rep @ drop (length pat) (c # cs)
      else c # replaceFirst pat rep cs)"

text \<open>
  \<^verbatim>\<open>value.split(sep)\<close> for a non-empty separator: the segments between the
  occurrences of the separator, found from the left; never the empty array.
\<close>

function split :: "string \<Rightarrow> string \<Rightarrow> string list" where
  "split sep s =
     (if s = [] then [[]]
      else if sep \<noteq> [] \<and> prefix sep s
        then [] # split sep (drop (length sep) s)
        else (let r = split sep (tl s) in (hd s # hd r) # tl r))"
  by pat_completeness auto
termination
  by (relation "measure (\<lambda>(sep, s). length s)") auto

declare split.simps [simp del]

text \<open>\<^verbatim>\<open>array.pop()\<close> as an expression: the last element, \<^verbatim>\<open>undefined\<close> on an empty array.\<close>

definition pop :: "'a list \<Rightarrow> 'a option" where
  "pop xs = (if xs = [] then None else Some (last xs))"

text \<open>\<^verbatim>\<open>value.indexOf(c)\<close>: the index of the first occurrence, or \<open>-1\<close>.\<close>

fun indexOf :: "char \<Rightarrow> string \<Rightarrow> int" where
  "indexOf c [] = - 1"
| "indexOf c (x # xs) =
     (if x = c then 0 else (let i = indexOf c xs in if i < 0 then - 1 else i + 1))"

text \<open>\<^verbatim>\<open>value.includes(c)\<close> for a single character.\<close>

definition includesChar :: "string \<Rightarrow> char \<Rightarrow> bool" where
  "includesChar s c = (indexOf c s \<ge> 0)"

section \<open>Test results (\<^verbatim>\<open>runner/TestResult.ts\<close>)\<close>

datatype TestResultStatus =
  unknown | started | skipped | ignored | incomplete | passed | risky | warning | failed | error

text \<open>
  The fields of class \<^verbatim>\<open>TestResult\<close>. The test item is kept by its ID. The type
  \<open>'n\<close> is that of JavaScript numbers: the sources only store the number 0 and
  what the built-in \<^verbatim>\<open>Number(text)\<close> returns, so the conversion is a parameter
  \<open>Number\<close> of the functions below.
\<close>

record 'n TestResult =
  name :: string
  testItem :: string
  status :: TestResultStatus
  message :: "string option"
  messageDetail :: "string option"
  messageLineNum :: "'n option"
  failureType :: "string option"
  expectedValue :: "string option"
  actualValue :: "string option"
  dataSetIdentifier :: "string option"
  duration :: 'n

definition newTestResult :: "string \<Rightarrow> string \<Rightarrow> ('n::zero) TestResult" where
  "newTestResult nm item =
     \<lparr> name = nm, testItem = item, status = unknown, message = None, messageDetail = None,
       messageLineNum = None, failureType = None, expectedValue = None, actualValue = None,
       dataSetIdentifier = None, duration = 0 \<rparr>"

text \<open>
  \<^verbatim>\<open>parseEscapedTeamcityString\<close>: six global replacements in the order of the
  source, then \<^verbatim>\<open>trim()\<close>.
\<close>

definition unescapeTeamcityString :: "string \<Rightarrow> string" where
  "unescapeTeamcityString v0 =
     (let v1 = replaceAll [CHR ''|'', CHR 0x27] [CHR 0x27] v0;
          v2 = replaceAll [CHR ''|'', CHR 0x22] [CHR 0x22] v1;
          v3 = replaceAll ''|['' ''['' v2;
          v4 = replaceAll ''|]'' '']'' v3;
          v5 = replaceAll ''|r|n'' [CHR 0x0D, CHR 0x0A] v4;
          v6 = replaceAll ''|n'' [CHR 0x0A] v5
      in v6)"

definition parseEscapedTeamcityString :: "string \<Rightarrow> string" where
  "parseEscapedTeamcityString v = trim (unescapeTeamcityString v)"

text \<open>
  The guard \<^verbatim>\<open>!value || value.length <= 0\<close> of every setter returns early when
  the argument is \<^verbatim>\<open>undefined\<close> or the empty string; \<open>present\<close> gives the
  argument that passes the guard.
\<close>

definition present :: "string option \<Rightarrow> string option" where
  "present v = (case v of None \<Rightarrow> None | Some s \<Rightarrow> if s = [] \<or> length s \<le> 0 then None else Some s)"

definition setMessage :: "string option \<Rightarrow> 'n TestResult \<Rightarrow> 'n TestResult" where
  "setMessage m r =
     (case present m of
        None \<Rightarrow> r
      | Some m' \<Rightarrow> r\<lparr> message := Some (parseEscapedTeamcityString m') \<rparr>)"

text \<open>
  \<^verbatim>\<open>setMessageDetail\<close>: the decoded detail is split at CR LF; the last piece is the
  message line. A message line that is non-empty and has its first colon at an index
  above 0 is split at its colons and the last part goes through \<^verbatim>\<open>Number\<close>.
\<close>

definition messageLineOf :: "string \<Rightarrow> string option" where
  "messageLineOf detail = pop (split [CHR 0x0D, CHR 0x0A] detail)"

definition setMessageDetail ::
  "(string option \<Rightarrow> 'n) \<Rightarrow> string option \<Rightarrow> 'n TestResult \<Rightarrow> 'n TestResult" where
  "setMessageDetail Number md r =
     (case present md of
        None \<Rightarrow> r
      | Some md' \<Rightarrow>
        (let messageDetail' = parseEscapedTeamcityString md';
             messageLine = messageLineOf messageDetail';
             r' = (case messageLine of
                     None \<Rightarrow> r
                   | Some line \<Rightarrow>
                       if line \<noteq> [] \<and> indexOf CHR '':'' line > 0
                       then r\<lparr> messageLineNum := Some (Number (pop (split '':'' line))) \<rparr>
                       else r)
         in r'\<lparr> messageDetail := Some messageDetail' \<rparr>))"

definition setFailureType :: "string option \<Rightarrow> 'n TestResult \<Rightarrow> 'n TestResult" where
  "setFailureType v r =
     (case present v of None \<Rightarrow> r | Some v' \<Rightarrow> r\<lparr> failureType := Some v' \<rparr>)"

definition setExpectedValue :: "string option \<Rightarrow> 'n TestResult \<Rightarrow> 'n TestResult" where
  "setExpectedValue v r =
     (case present v of
        None \<Rightarrow> r
      | Some v' \<Rightarrow> r\<lparr> expectedValue := Some (parseEscapedTeamcityString v') \<rparr>)"

definition setActualValue :: "string option \<Rightarrow> 'n TestResult \<Rightarrow> 'n TestResult" where
  "setActualValue v r =
     (case present v of
        None \<Rightarrow> r
      | Some v' \<Rightarrow> r\<lparr> actualValue := Some (parseEscapedTeamcityString v') \<rparr>)"

definition setDataSetIdentifier :: "string option \<Rightarrow> 'n TestResult \<Rightarrow> 'n TestResult" where
  "setDataSetIdentifier v r =
     (case present v of None \<Rightarrow> r | Some v' \<Rightarrow> r\<lparr> dataSetIdentifier := Some v' \<rparr>)"

definition markStarted :: "'n TestResult \<Rightarrow> 'n TestResult" where
  "markStarted r = r\<lparr> status := started \<rparr>"

definition markPassed :: "'n TestResult \<Rightarrow> 'n TestResult" where
  "markPassed r = r\<lparr> status := passed \<rparr>"

definition markIgnored ::
  "(string option \<Rightarrow> 'n) \<Rightarrow> string option \<Rightarrow> string option \<Rightarrow> 'n TestResult \<Rightarrow> 'n TestResult" where
  "markIgnored Number m md r =
     setMessageDetail Number md (setMessage m (r\<lparr> status := ignored \<rparr>))"

definition markFailed ::
  "(string option \<Rightarrow> 'n) \<Rightarrow> string option \<Rightarrow> string option \<Rightarrow> string option \<Rightarrow> string option
     \<Rightarrow> string option \<Rightarrow> string option \<Rightarrow> 'n TestResult \<Rightarrow> 'n TestResult" where
  "markFailed Number m md ft ev av ds r =
     setDataSetIdentifier ds (setActualValue av (setExpectedValue ev (setFailureType ft
       (setMessageDetail Number md (setMessage m (r\<lparr> status := failed \<rparr>))))))"

definition markErrored ::
  "(string option \<Rightarrow> 'n) \<Rightarrow> string option \<Rightarrow> string option \<Rightarrow> string option \<Rightarrow> string option
     \<Rightarrow> string option \<Rightarrow> string option \<Rightarrow> 'n TestResult \<Rightarrow> 'n TestResult" where
  "markErrored Number m md ft ev av ds r =
     setDataSetIdentifier ds (setActualValue av (setExpectedValue ev (setFailureType ft
       (setMessageDetail Number md (setMessage m (r\<lparr> status := error \<rparr>))))))"

definition setDuration :: "'n \<Rightarrow> 'n TestResult \<Rightarrow> 'n TestResult" where
  "setDuration d r = r\<lparr> duration := d \<rparr>"

text \<open>
  A stand-in for JavaScript numbers in examples: \<open>NaN\<close> or an integer. The built-in
  \<^verbatim>\<open>Number\<close> stays a parameter of the model; \<open>NumberOfDigits\<close> agrees with it on
  \<^verbatim>\<open>undefined\<close>, on the empty text and on texts of decimal digits with a value below
  \<open>2^53\<close>, and the examples apply it to such arguments only.
\<close>

datatype jsNumber = NaN | Num int

instantiation jsNumber :: zero
begin

definition zero_jsNumber_def: "0 = Num 0"

instance ..

end

definition digitValue :: "char \<Rightarrow> int option" where
  "digitValue c =
     (let code = (of_char c :: int)
      in if 48 \<le> code \<and> code \<le> 57 then Some (code - 48) else None)"

fun decimalValue :: "int \<Rightarrow> string \<Rightarrow> jsNumber" where
  "decimalValue acc [] = Num acc"
| "decimalValue acc (c # cs) =
     (case digitValue c of None \<Rightarrow> NaN | Some d \<Rightarrow> decimalValue (10 * acc + d) cs)"

definition NumberOfDigits :: "string option \<Rightarrow> jsNumber" where
  "NumberOfDigits v = (case v of None \<Rightarrow> NaN | Some s \<Rightarrow> decimalValue 0 s)"

subsection \<open>The escape convention as data\<close>

text \<open>
  The six escape tokens that \<^verbatim>\<open>parseEscapedTeamcityString\<close> replaces, each with its
  text in a payload and the characters it stands for. A payload built only from tokens
  is \<open>encoded ts\<close>; the text it encodes is \<open>decoded ts\<close>.
\<close>

datatype escapeToken =
  SingleQuote | DoubleQuote | OpenBracket | CloseBracket | LineFeed | CarriageReturnLineFeed

fun tokenText :: "escapeToken \<Rightarrow> string" where
  "tokenText SingleQuote = [CHR ''|'', CHR 0x27]"
| "tokenText DoubleQuote = [CHR ''|'', CHR 0x22]"
| "tokenText OpenBracket = ''|[''"
| "tokenText CloseBracket = ''|]''"
| "tokenText LineFeed = ''|n''"
| "tokenText CarriageReturnLineFeed = ''|r|n''"

fun tokenChars :: "escapeToken \<Rightarrow> string" where
  "tokenChars SingleQuote = [CHR 0x27]"
| "tokenChars DoubleQuote = [CHR 0x22]"
| "tokenChars OpenBracket = ''[''"
| "tokenChars CloseBracket = '']''"
| "tokenChars LineFeed = [CHR 0x0A]"
| "tokenChars CarriageReturnLineFeed = [CHR 0x0D, CHR 0x0A]"

definition encoded :: "escapeToken list \<Rightarrow> string" where
  "encoded ts = concat (map tokenText ts)"

definition decoded :: "escapeToken list \<Rightarrow> string" where
  "decoded ts = concat (map tokenChars ts)"

text \<open>
  The position of a token's replacement in the source, and a payload after the first
  \<open>k\<close> replacements: tokens of a lower position are already characters.
\<close>

fun tokenRank :: "escapeToken \<Rightarrow> nat" where
  "tokenRank SingleQuote = 0"
| "tokenRank DoubleQuote = 1"
| "tokenRank OpenBracket = 2"
| "tokenRank CloseBracket = 3"
| "tokenRank CarriageReturnLineFeed = 4"
| "tokenRank LineFeed = 5"

definition render :: "nat \<Rightarrow> escapeToken \<Rightarrow> string" where
  "render k t = (if tokenRank t < k then tokenChars t else tokenText t)"

section \<open>The test runner (\<^verbatim>\<open>runner/TestRunner.ts\<close>)\<close>

text \<open>
  What a function of the runner can throw: a \<^verbatim>\<open>TypeError\<close> when a property of
  \<^verbatim>\<open>undefined\<close> is read, a \<^verbatim>\<open>SyntaxError\<close> when \<^verbatim>\<open>new RegExp\<close> is given an invalid
  pattern. For an \<^verbatim>\<open>async\<close> function the error is the rejection of its promise.
\<close>

datatype jsError = TypeError | SyntaxError

subsection \<open>Re-running the most recent request\<close>

record TestRunRequest =
  requestInclude :: "string list option"
  requestExclude :: "string list option"
  profile :: "string option"
  continuous :: "bool option"

record RecentRun =
  request :: TestRunRequest
  debug :: bool
  coverage :: bool

text \<open>
  The part of the runner's state that \<^verbatim>\<open>rerunMostRecentRunRequest\<close> touches: the record
  of the most recent run, the messages given to \<^verbatim>\<open>logger.error\<close> (with the flag that
  shows them to the user), and the runs handed to \<^verbatim>\<open>this.run\<close>, which is called
  without \<^verbatim>\<open>await\<close>.
\<close>

record RunnerState =
  mostRecentTestRunRequest :: "RecentRun option"
  loggedErrors :: "(string \<times> bool) list"
  startedRuns :: "RecentRun list"

definition rerunMostRecentRunRequest :: "RunnerState \<Rightarrow> RunnerState \<times> (jsError + unit)" where
  "rerunMostRecentRunRequest s =
     (let s1 = (if mostRecentTestRunRequest s = None
                then s\<lparr> loggedErrors := loggedErrors s @
                  [(''Unable to re-run test, as no test runs have been completed successfully yet.'',
                    True)] \<rparr>
                else s)
      in case mostRecentTestRunRequest s1 of
           None \<Rightarrow> (s1, Inl TypeError)
         | Some previousRequest \<Rightarrow>
             (let request' = \<lparr> requestInclude = requestInclude (request previousRequest),
                                requestExclude = requestExclude (request previousRequest),
                                profile = profile (request previousRequest),
                                continuous = continuous (request previousRequest) \<rparr>
              in (s1\<lparr> startedRuns := startedRuns s1 @
                    [\<lparr> request = request', debug = debug previousRequest,
                       coverage = coverage previousRequest \<rparr>] \<rparr>,
                  Inr ())))"

subsection \<open>The run queue\<close>






subsection \<open>Continuous runs\<close>

text \<open>
  An active continuous run: the text of its pattern, its request (by a number) and its
  debug flag. The map of active runs is kept in insertion order.
\<close>

record ContinuousTestRunDefinition =
  pattern :: string
  runRequest :: nat
  isDebug :: bool

record PathMapping =
  sourcePattern :: string
  testPattern :: string

text \<open>
  \<^verbatim>\<open>new RegExp(text)\<close> is a parameter \<open>RegExp\<close> of the model: \<open>None\<close> when the
  constructor throws a \<^verbatim>\<open>SyntaxError\<close>, otherwise the predicate \<^verbatim>\<open>test\<close> of the
  expression.
\<close>

type_synonym regExp = "string \<Rightarrow> (string \<Rightarrow> bool) option"

definition isGlobPattern :: "string \<Rightarrow> bool" where
  "isGlobPattern testFile = (includesChar testFile CHR ''*'' \<or> includesChar testFile CHR ''{'')"

text \<open>The class \<^verbatim>\<open>\w\<close> of a regular expression: letters, digits and the underscore.\<close>

definition isWordChar :: "char \<Rightarrow> bool" where
  "isWordChar c =
     (let code = (of_char c :: nat)
      in (48 \<le> code \<and> code \<le> 57) \<or> (65 \<le> code \<and> code \<le> 90) \<or> code = 95
         \<or> (97 \<le> code \<and> code \<le> 122))"

text \<open>
  \<^verbatim>\<open>testFile.match(/::(test\w+)$/)\<close>: the first position from which the text reads
  \<^verbatim>\<open>::test\<close> and then word characters, at least one, up to its end; the result is the
  group, the method name.
\<close>

fun methodMatch :: "string \<Rightarrow> string option" where
  "methodMatch [] = None"
| "methodMatch (c # cs) =
     (if prefix ''::test'' (c # cs) \<and> drop 6 (c # cs) \<noteq> [] \<and> list_all isWordChar (drop 6 (c # cs))
      then Some (drop 2 (c # cs))
      else methodMatch cs)"

text \<open>
  The replaced text is the literal \<^verbatim>\<open>::{methodName}\<close>: the template of the source has no
  dollar sign.
\<close>

definition testFilePathOf :: "string \<Rightarrow> string" where
  "testFilePathOf testFile =
     (case methodMatch testFile of
        Some methodName \<Rightarrow> replaceFirst ''::{methodName}'' [] testFile
      | None \<Rightarrow> testFile)"

text \<open>
  A regular expression \<^verbatim>\<open>^pre(.+)suf$\<close>: the group, when the text starts with \<open>pre\<close>,
  ends with \<open>suf\<close> and has at least one character between them, none of them a line
  terminator.
\<close>

definition isLineTerminator :: "char \<Rightarrow> bool" where
  "isLineTerminator c = (c = CHR 0x0A \<or> c = CHR 0x0D)"

definition matchGroup :: "string \<Rightarrow> string \<Rightarrow> string \<Rightarrow> string option" where
  "matchGroup pre suf s =
     (if prefix pre s \<and> suffix suf s \<and> length pre + length suf < length s
         \<and> \<not> list_ex isLineTerminator (take (length s - length pre - length suf) (drop (length pre) s))
      then Some (take (length s - length pre - length suf) (drop (length pre) s))
      else None)"

text \<open>
  \<^verbatim>\<open>convertTestPathToSourcePath\<close>: the five patterns in the order of the source. The
  third one, \<^verbatim>\<open>^tests\/(.+)\/(.+)Test\.php$\<close>, needs a slash inside the group of the first
  with a character on each side, and its replacement puts the two groups together again.
\<close>

definition convertTestPathToSourcePath :: "string \<Rightarrow> string" where
  "convertTestPathToSourcePath testPath =
     (case matchGroup ''tests/'' ''Test.php'' testPath of
        Some g \<Rightarrow> ''src/'' @ g @ ''.php''
      | None \<Rightarrow>
     (case matchGroup ''test/'' ''Test.php'' testPath of
        Some g \<Rightarrow> ''src/'' @ g @ ''.php''
      | None \<Rightarrow>
     (case (case matchGroup ''tests/'' ''Test.php'' testPath of
              Some g \<Rightarrow> if CHR ''/'' \<in> set (butlast (tl g)) then Some g else None
            | None \<Rightarrow> None) of
        Some g \<Rightarrow> ''src/'' @ g @ ''.php''
      | None \<Rightarrow>
     (case matchGroup ''tests/App/'' ''Test.php'' testPath of
        Some g \<Rightarrow> ''app/'' @ g @ ''.php''
      | None \<Rightarrow>
     (case matchGroup ''tests/Test/'' ''Test.php'' testPath of
        Some g \<Rightarrow> ''app/'' @ g @ ''.php''
      | None \<Rightarrow> testPath)))))"

text \<open>
  The loop over \<^verbatim>\<open>continuous.pathMappings\<close>: both expressions of a mapping are
  constructed, then tested against the changed file; the first mapping with a match ends
  the loop.
\<close>

fun matchesPathMapping :: "regExp \<Rightarrow> PathMapping list \<Rightarrow> string \<Rightarrow> jsError + bool" where
  "matchesPathMapping RegExp [] relativePath = Inr False"
| "matchesPathMapping RegExp (mapping # mappings) relativePath =
     (case RegExp (sourcePattern mapping) of
        None \<Rightarrow> Inl SyntaxError
      | Some sourceTest \<Rightarrow>
          (case RegExp (testPattern mapping) of
             None \<Rightarrow> Inl SyntaxError
           | Some testTest \<Rightarrow>
               if sourceTest relativePath \<or> testTest relativePath then Inr True
               else matchesPathMapping RegExp mappings relativePath))"

text \<open>\<^verbatim>\<open>runAllContinuousTests\<close>: a run is started for every active continuous run.\<close>

definition runAllContinuousTests ::
  "ContinuousTestRunDefinition list \<Rightarrow> ContinuousTestRunDefinition list" where
  "runAllContinuousTests activeContinuousRuns = activeContinuousRuns"

text \<open>
  \<^verbatim>\<open>checkForActiveContinuousRun\<close>: the loop over the active runs; the result is the list
  of the runs started, or the error thrown. \<open>active\<close> is the whole map, \<open>todo\<close> the
  entries the loop has not visited yet.
\<close>

fun checkPatterns ::
  "regExp \<Rightarrow> PathMapping list \<Rightarrow> ContinuousTestRunDefinition list
     \<Rightarrow> ContinuousTestRunDefinition list \<Rightarrow> string
     \<Rightarrow> jsError + ContinuousTestRunDefinition list" where
  "checkPatterns RegExp pathMappings active [] relativePath = Inr []"
| "checkPatterns RegExp pathMappings active (continuousRun # todo) relativePath =
     (let testFile = pattern continuousRun in
      if isGlobPattern testFile then Inr [continuousRun]
      else
        (let testFilePath = testFilePathOf testFile in
         if testFilePath = relativePath then Inr (runAllContinuousTests active)
         else if convertTestPathToSourcePath testFilePath = relativePath
           then Inr (runAllContinuousTests active)
         else
           (case matchesPathMapping RegExp pathMappings relativePath of
              Inl e \<Rightarrow> Inl e
            | Inr True \<Rightarrow> Inr (runAllContinuousTests active)
            | Inr False \<Rightarrow> checkPatterns RegExp pathMappings active todo relativePath)))"

definition checkForActiveContinuousRun ::
  "regExp \<Rightarrow> PathMapping list \<Rightarrow> ContinuousTestRunDefinition list \<Rightarrow> string
     \<Rightarrow> jsError + ContinuousTestRunDefinition list" where
  "checkForActiveContinuousRun RegExp pathMappings activeContinuousRuns relativePath =
     checkPatterns RegExp pathMappings activeContinuousRuns activeContinuousRuns relativePath"

text \<open>
  A constructor for the examples: it agrees with \<^verbatim>\<open>new RegExp\<close> on the pattern \<^verbatim>\<open>(\<close>,
  which is a syntax error, and on \<^verbatim>\<open>^src/\<close>, which tests for a text that starts with
  \<^verbatim>\<open>src/\<close>. The examples use no other pattern.
\<close>

definition exampleRegExp :: regExp where
  "exampleRegExp p =
     (if p = ''('' then None
      else if p = ''^src/'' then Some (prefix ''src/'')
      else Some (\<lambda>text. False))"

section \<open>The test file loader (class \<^verbatim>\<open>TestFileLoader\<close>)\<close>

subsection \<open>Parsed definitions and configuration\<close>

datatype ItemType = ItemNamespace | ItemClass | ItemMethod | ItemTestsuite

text \<open>
  What the loader reads from a \<^verbatim>\<open>TestItemDefinition\<close>, under the names of its getters.
  Locations (\<^verbatim>\<open>vscode.Uri\<close>) are kept as the text of their path.
\<close>

record TestItemDefinition =
  getType :: ItemType
  getUri :: string
  getRange :: "(nat \<times> nat) option"
  getNamespaceName :: "string option"
  getClassId :: string
  getClassName :: string
  getClassLabel :: string
  getMethodId :: string
  getMethodLabel :: string

text \<open>An entry of the namespace map: a namespace prefix and the path of its directory.\<close>

record AutoloaderDefinition =
  getNamespace :: string
  getDirectoryPath :: string

text \<open>
  A test suite of the configuration file, with the glob patterns that
  \<^verbatim>\<open>getGlobsForTestSuiteItems\<close> gives for it.
\<close>

record TestSuite =
  getName :: string
  getConfigFileUri :: string
  getGlobs :: "string list"

text \<open>
  The collaborators of the loader that are not part of it: the settings, the namespace
  and suite maps, the glob matcher \<^verbatim>\<open>vscode.languages.match\<close> (is the score not 0),
  \<^verbatim>\<open>vscode.workspace.fs.stat\<close> (does it succeed) and \<^verbatim>\<open>generateTestItemId\<close>.
\<close>

record Env =
  getWorkspaceFolder :: "string \<Rightarrow> string option"
  isUsingTestSuiteDefinitions :: "string \<Rightarrow> bool"
  isOrganizedByNamespace :: bool
  getWorkspaceNamespaceMap :: "string \<Rightarrow> AutoloaderDefinition list"
  getWorkspaceTestSuites :: "string \<Rightarrow> TestSuite list"
  languagesMatch :: "string \<Rightarrow> string \<Rightarrow> bool"
  directoryExists :: "string \<Rightarrow> bool"
  generateTestItemId :: "ItemType \<Rightarrow> string \<Rightarrow> string option \<Rightarrow> string"

subsection \<open>The catalog\<close>

text \<open>
  Modelled from the spec: the store of \<^verbatim>\<open>vscode.TestItem\<close> objects is not part of the
  repository. Following the data model (an ID maps to at most one node; a node holds an
  optional parent and an ordered set of children), an item is identified with its ID.
  A collection of children keeps the IDs in insertion order without duplicates; adding an
  item sets its parent and takes it out of the collection it was in (a move); deleting an
  item from a collection clears its parent.
\<close>

record TestItemObject =
  itemLabel :: string
  itemUri :: string
  itemRange :: "(nat \<times> nat) option"
  itemCanResolveChildren :: bool
  itemParent :: "string option"
  itemChildren :: "string list"

text \<open>
  The state the loader works on: every item created (by ID), the top-level collection
  \<^verbatim>\<open>ctrl.items\<close>, and the \<^verbatim>\<open>TestItemMap\<close>: the registered items in insertion order,
  each with its definition.
\<close>

record Catalog =
  items :: "(string \<times> TestItemObject) list"
  ctrlItems :: "string list"
  testItemMap :: "(string \<times> TestItemDefinition) list"

definition getItem :: "Catalog \<Rightarrow> string \<Rightarrow> TestItemObject option" where
  "getItem c i = map_of (items c) i"

definition updateItem :: "string \<Rightarrow> (TestItemObject \<Rightarrow> TestItemObject) \<Rightarrow> Catalog \<Rightarrow> Catalog" where
  "updateItem i f c =
     (case getItem c i of
        None \<Rightarrow> c
      | Some item \<Rightarrow> c\<lparr> items := AList.update i (f item) (items c) \<rparr>)"

definition parentOf :: "Catalog \<Rightarrow> string \<Rightarrow> string option" where
  "parentOf c i = (case getItem c i of None \<Rightarrow> None | Some item \<Rightarrow> itemParent item)"

definition childrenOf :: "Catalog \<Rightarrow> string \<Rightarrow> string list" where
  "childrenOf c i = (case getItem c i of None \<Rightarrow> [] | Some item \<Rightarrow> itemChildren item)"

definition createTestItem :: "string \<Rightarrow> string \<Rightarrow> string \<Rightarrow> Catalog \<Rightarrow> Catalog" where
  "createTestItem i label uri c =
     c\<lparr> items := AList.update i
           \<lparr> itemLabel = label, itemUri = uri, itemRange = None, itemCanResolveChildren = False,
             itemParent = None, itemChildren = [] \<rparr> (items c) \<rparr>"

definition insertId :: "string \<Rightarrow> string list \<Rightarrow> string list" where
  "insertId i ids = (if i \<in> set ids then ids else ids @ [i])"

text \<open>Taking an item out of the collection that holds it, before it is put into another.\<close>

definition detach :: "string \<Rightarrow> Catalog \<Rightarrow> Catalog" where
  "detach i c =
     (case parentOf c i of
        Some p \<Rightarrow> updateItem p (\<lambda>item. item\<lparr> itemChildren := removeAll i (itemChildren item) \<rparr>) c
      | None \<Rightarrow> c\<lparr> ctrlItems := removeAll i (ctrlItems c) \<rparr>)"

text \<open>\<^verbatim>\<open>parent.children.add(item)\<close>\<close>

definition childrenAdd :: "string \<Rightarrow> string \<Rightarrow> Catalog \<Rightarrow> Catalog" where
  "childrenAdd p i c =
     (let c1 = (if parentOf c i = Some p then c else detach i c);
          c2 = updateItem p (\<lambda>item. item\<lparr> itemChildren := insertId i (itemChildren item) \<rparr>) c1
      in updateItem i (\<lambda>item. item\<lparr> itemParent := Some p \<rparr>) c2)"

text \<open>\<^verbatim>\<open>ctrl.items.add(item)\<close>\<close>

definition ctrlItemsAdd :: "string \<Rightarrow> Catalog \<Rightarrow> Catalog" where
  "ctrlItemsAdd i c =
     (let c1 = (case parentOf c i of Some p \<Rightarrow> detach i c | None \<Rightarrow> c);
          c2 = c1\<lparr> ctrlItems := insertId i (ctrlItems c1) \<rparr>
      in updateItem i (\<lambda>item. item\<lparr> itemParent := None \<rparr>) c2)"

text \<open>\<^verbatim>\<open>parent.children.delete(id)\<close>\<close>

definition childrenDelete :: "string \<Rightarrow> string \<Rightarrow> Catalog \<Rightarrow> Catalog" where
  "childrenDelete p i c =
     (if i \<in> set (childrenOf c p)
      then updateItem i (\<lambda>item. item\<lparr> itemParent := None \<rparr>)
             (updateItem p (\<lambda>item. item\<lparr> itemChildren := removeAll i (itemChildren item) \<rparr>) c)
      else c)"

text \<open>\<^verbatim>\<open>ctrl.items.delete(id)\<close>\<close>

definition ctrlItemsDelete :: "string \<Rightarrow> Catalog \<Rightarrow> Catalog" where
  "ctrlItemsDelete i c = c\<lparr> ctrlItems := removeAll i (ctrlItems c) \<rparr>"

subsection \<open>The map of test items (\<^verbatim>\<open>TestItemMap\<close>)\<close>

text \<open>\<^verbatim>\<open>getTestItem(id)\<close> finds an item when the ID is registered.\<close>

definition getTestItem :: "Catalog \<Rightarrow> string \<Rightarrow> string option" where
  "getTestItem c i = (if map_of (testItemMap c) i = None then None else Some i)"

definition getTestDefinition :: "Catalog \<Rightarrow> string \<Rightarrow> TestItemDefinition option" where
  "getTestDefinition c i = map_of (testItemMap c) i"

text \<open>\<^verbatim>\<open>set(item, definition)\<close>: a registered ID keeps its place in the map.\<close>

definition testItemMapSet :: "string \<Rightarrow> TestItemDefinition \<Rightarrow> Catalog \<Rightarrow> Catalog" where
  "testItemMapSet i d c = c\<lparr> testItemMap := AList.update i d (testItemMap c) \<rparr>"

text \<open>\<^verbatim>\<open>delete(id)\<close>\<close>

definition testItemMapDelete :: "string \<Rightarrow> Catalog \<Rightarrow> Catalog" where
  "testItemMapDelete i c = c\<lparr> testItemMap := AList.delete i (testItemMap c) \<rparr>"

text \<open>
  Modelled from the spec: \<^verbatim>\<open>getTestItemIdsForFile\<close> belongs to a version of
  \<^verbatim>\<open>TestItemMap\<close> that is not among the sources. It captures the IDs of the registered
  items that originate from the file: those whose location is the file's.
\<close>

definition getTestItemIdsForFile :: "Catalog \<Rightarrow> string \<Rightarrow> string list" where
  "getTestItemIdsForFile c uri =
     filter (\<lambda>i. case getItem c i of None \<Rightarrow> False | Some item \<Rightarrow> itemUri item = uri)
       (map fst (testItemMap c))"

subsection \<open>Helpers of the loader\<close>

definition setLabelIcon :: "ItemType \<Rightarrow> string \<Rightarrow> string" where
  "setLabelIcon itemType label =
     (case itemType of
        ItemNamespace \<Rightarrow> ''$(symbol-namespace) '' @ label
      | ItemClass \<Rightarrow> ''$(symbol-class) '' @ label
      | ItemMethod \<Rightarrow> ''$(symbol-method) '' @ label
      | ItemTestsuite \<Rightarrow> label)"

definition getExistingTestItem :: "Catalog \<Rightarrow> string \<Rightarrow> string option" where
  "getExistingTestItem c i = getTestItem c i"

definition addTestItem ::
  "string \<Rightarrow> string \<Rightarrow> TestItemDefinition \<Rightarrow> string \<Rightarrow> string option \<Rightarrow> Catalog \<Rightarrow> Catalog" where
  "addTestItem i label definition uri parent c =
     (let label' = setLabelIcon (getType definition) label;
          c1 = createTestItem i label' uri c;
          c2 = testItemMapSet i definition c1
      in case parent of
           Some p \<Rightarrow> childrenAdd p i c2
         | None \<Rightarrow> ctrlItemsAdd i c2)"

text \<open>
  \<^verbatim>\<open>removeTestItem\<close>: the definition goes, the item leaves its parent or the top level,
  and a parent left without children is removed in turn. The recursion follows the
  parents, so in a state with a cycle of parents it need not end: the result is an
  option, \<open>None\<close> when the function does not return.
\<close>

partial_function (option) removeTestItem :: "string \<Rightarrow> Catalog \<Rightarrow> Catalog option" where
  "removeTestItem i c =
     (let c1 = testItemMapDelete i c in
      case parentOf c1 i of
        None \<Rightarrow> Some (ctrlItemsDelete i c1)
      | Some p \<Rightarrow>
          (let c2 = childrenDelete p i c1 in
           if length (childrenOf c2 p) \<le> 0 then removeTestItem p c2 else Some c2))"

declare removeTestItem.simps [code]

text \<open>A value that \<^verbatim>\<open>if (value)\<close> accepts: a text that is defined and not empty.\<close>

definition truthy :: "string option \<Rightarrow> bool" where
  "truthy v = (case v of None \<Rightarrow> False | Some s \<Rightarrow> s \<noteq> [])"

text \<open>\<^verbatim>\<open>findSuiteTestItemForTestDocument\<close>, up to the suite it finds.\<close>

definition findSuiteForTestDocument :: "Env \<Rightarrow> string \<Rightarrow> string \<Rightarrow> TestSuite option" where
  "findSuiteForTestDocument env workspaceFolder documentUri =
     find (\<lambda>testSuite. list_ex (\<lambda>glob. languagesMatch env glob documentUri) (getGlobs testSuite))
       (getWorkspaceTestSuites env workspaceFolder)"

definition getSuiteTestItem :: "Env \<Rightarrow> TestSuite \<Rightarrow> Catalog \<Rightarrow> Catalog \<times> string" where
  "getSuiteTestItem env suite c =
     (let i = generateTestItemId env ItemTestsuite (getConfigFileUri suite) (Some (getName suite));
          label = ''SUITE: '' @ getName suite
      in case getExistingTestItem c i of
           Some item \<Rightarrow> (c, item)
         | None \<Rightarrow>
             (let definition =
                    \<lparr> getType = ItemTestsuite, getUri = getConfigFileUri suite, getRange = None,
                      getNamespaceName = None, getClassId = [], getClassName = [],
                      getClassLabel = [], getMethodId = [], getMethodLabel = [] \<rparr>;
                  c1 = addTestItem i label definition (getConfigFileUri suite) None c
              in (updateItem i (\<lambda>item. item\<lparr> itemCanResolveChildren := True \<rparr>) c1, i)))"

definition findSuiteTestItemForTestDocument ::
  "Env \<Rightarrow> string \<Rightarrow> string \<Rightarrow> Catalog \<Rightarrow> Catalog \<times> string option" where
  "findSuiteTestItemForTestDocument env workspaceFolder documentUri c =
     (case findSuiteForTestDocument env workspaceFolder documentUri of
        Some testSuite \<Rightarrow> (let (c1, item) = getSuiteTestItem env testSuite c in (c1, Some item))
      | None \<Rightarrow> (c, None))"

subsection \<open>Placement below namespaces\<close>

definition backslash :: char where
  "backslash = CHR 0x5C"

definition stripTrailing :: "char \<Rightarrow> string \<Rightarrow> string" where
  "stripTrailing ch s = (if s \<noteq> [] \<and> last s = ch then butlast s else s)"

text \<open>
  The loop of \<^verbatim>\<open>getNamespaceTestItem\<close> that finds the namespace prefix: the first entry
  of the namespace map whose namespace starts the class namespace and whose directory path
  starts the path of the class file. The result is the prefix and its path, each without
  its trailing separator; two empty texts when no entry is found.
\<close>

fun findNamespacePrefix :: "AutoloaderDefinition list \<Rightarrow> string \<Rightarrow> string \<Rightarrow> string \<times> string" where
  "findNamespacePrefix [] classNamespace classPath = ([], [])"
| "findNamespacePrefix (mappedNamespace # rest) classNamespace classPath =
     (if \<not> prefix (getNamespace mappedNamespace) classNamespace
        then findNamespacePrefix rest classNamespace classPath
      else if \<not> prefix (getDirectoryPath mappedNamespace) classPath
        then findNamespacePrefix rest classNamespace classPath
      else (stripTrailing backslash (getNamespace mappedNamespace),
            stripTrailing CHR ''/'' (getDirectoryPath mappedNamespace)))"

text \<open>
  The loop of \<^verbatim>\<open>getNamespaceTestItem\<close> over the parts of the namespace: an item is found
  or created for each part, below the item of the part before it.
\<close>

fun namespaceItems ::
  "Env \<Rightarrow> string \<Rightarrow> string \<Rightarrow> string list \<Rightarrow> string \<Rightarrow> string \<Rightarrow> string option \<Rightarrow> Catalog
     \<Rightarrow> Catalog \<times> string option" where
  "namespaceItems env namespacePrefix namespacePrefixPath [] namespacePath namespaceName parent c =
     (c, parent)"
| "namespaceItems env namespacePrefix namespacePrefixPath (namespacePart # parts) namespacePath
     namespaceName parent c =
     (let namespacePath' = (if length namespacePath \<le> 0 then namespacePrefixPath
                            else namespacePath @ ''/'' @ namespacePart);
          namespaceName' = (if length namespacePath \<le> 0 then namespacePrefix
                            else namespaceName @ [backslash] @ namespacePart);
          i = generateTestItemId env ItemNamespace namespacePath' None
      in case getExistingTestItem c i of
           Some item \<Rightarrow>
             namespaceItems env namespacePrefix namespacePrefixPath parts namespacePath'
               namespaceName' (Some item) c
         | None \<Rightarrow>
             (let definition =
                    \<lparr> getType = ItemNamespace, getUri = namespacePath', getRange = None,
                      getNamespaceName = Some namespaceName', getClassId = [], getClassName = [],
                      getClassLabel = [], getMethodId = [], getMethodLabel = [] \<rparr>;
                  c1 = addTestItem i namespacePart definition namespacePath' parent c;
                  c2 = updateItem i (\<lambda>item. item\<lparr> itemCanResolveChildren := True \<rparr>) c1
              in namespaceItems env namespacePrefix namespacePrefixPath parts namespacePath'
                   namespaceName' (Some i) c2))"

definition getNamespaceTestItem ::
  "Env \<Rightarrow> string \<Rightarrow> TestItemDefinition \<Rightarrow> string option \<Rightarrow> Catalog \<Rightarrow> Catalog \<times> string option" where
  "getNamespaceTestItem env workspaceFolder classDefinition parent c =
     (if isOrganizedByNamespace env \<noteq> True then (c, parent)
      else if \<not> truthy (getNamespaceName classDefinition) then (c, parent)
      else
        (let classNamespace = (case getNamespaceName classDefinition of Some n \<Rightarrow> n | None \<Rightarrow> []);
             (namespacePrefix, namespacePrefixPath) =
               findNamespacePrefix (getWorkspaceNamespaceMap env workspaceFolder) classNamespace
                 (getUri classDefinition)
         in if length namespacePrefix \<le> 0 then (c, parent)
            else
              (let normalisedClassNamespace =
                     replaceFirst (namespacePrefix @ [backslash]) [] classNamespace;
                   namespaceParts = namespacePrefix # split [backslash] normalisedClassNamespace;
                   targetNamespacePath =
                     namespacePrefixPath @ ''/'' @ replaceAll [backslash] ''/'' normalisedClassNamespace
               in if \<not> directoryExists env targetNamespacePath then (c, parent)
                  else namespaceItems env namespacePrefix namespacePrefixPath namespaceParts [] []
                         parent c)))"

subsection \<open>Items of classes and methods\<close>

text \<open>
  The loop \<^verbatim>\<open>for (let [id, child] of item.children)\<close> of \<^verbatim>\<open>getClassTestItem\<close>: the
  children are visited in order; one that has left the collection before its turn is
  skipped, as the iterator of a map does.
\<close>

fun removeChildren :: "string \<Rightarrow> string list \<Rightarrow> Catalog \<Rightarrow> Catalog option" where
  "removeChildren item [] c = Some c"
| "removeChildren item (child # rest) c =
     (if child \<in> set (childrenOf c item)
      then (case removeTestItem child c of
              None \<Rightarrow> None
            | Some c1 \<Rightarrow> removeChildren item rest c1)
      else removeChildren item rest c)"

definition classLabelFor :: "Env \<Rightarrow> TestItemDefinition \<Rightarrow> string option \<Rightarrow> string" where
  "classLabelFor env definition parent =
     (let name = getClassName definition;
          label = getClassLabel definition;
          qualified = (case getNamespaceName definition of Some n \<Rightarrow> n | None \<Rightarrow> [])
                        @ [backslash] @ getClassName definition;
          label1 = (if isOrganizedByNamespace env \<noteq> True \<and> truthy (getNamespaceName definition)
                       \<and> name = label
                    then qualified else label);
          label2 = (if isOrganizedByNamespace env = True \<and> truthy (getNamespaceName definition)
                       \<and> parent = None
                    then qualified else label1)
      in label2)"

definition createClassTestItem ::
  "Env \<Rightarrow> TestItemDefinition \<Rightarrow> string option \<Rightarrow> Catalog \<Rightarrow> Catalog \<times> string" where
  "createClassTestItem env definition parent c =
     (let i = getClassId definition;
          c1 = addTestItem i (classLabelFor env definition parent) definition (getUri definition)
                 parent c;
          c2 = updateItem i (\<lambda>item. item\<lparr> itemRange := getRange definition \<rparr>) c1;
          c3 = updateItem i (\<lambda>item. item\<lparr> itemCanResolveChildren := True \<rparr>) c2
      in (c3, i))"

definition getClassTestItem ::
  "Env \<Rightarrow> TestItemDefinition \<Rightarrow> string option \<Rightarrow> Catalog \<Rightarrow> (Catalog \<times> string) option" where
  "getClassTestItem env definition parent c =
     (let i = getClassId definition;
          label = classLabelFor env definition parent
      in case getExistingTestItem c i of
           None \<Rightarrow> Some (createClassTestItem env definition parent c)
         | Some item \<Rightarrow>
             (let existingDefinition = getTestDefinition c i;
                  replaceTestItem =
                    (if parent \<noteq> None \<and> parentOf c item \<noteq> None \<and> parent \<noteq> parentOf c item
                       then True
                     else if existingDefinition \<noteq> None
                          \<and> map_option getNamespaceName existingDefinition
                              \<noteq> Some (getNamespaceName definition)
                       then True
                     else False)
              in if replaceTestItem = False
                 then
                   (let c1 = updateItem item
                               (\<lambda>it. it\<lparr> itemLabel := setLabelIcon (getType definition) label \<rparr>) c;
                        c2 = updateItem item (\<lambda>it. it\<lparr> itemRange := getRange definition \<rparr>) c1;
                        c3 = testItemMapSet item definition c2
                    in Some (c3, item))
                 else
                   (case removeChildren item (childrenOf c item) c of
                      None \<Rightarrow> None
                    | Some c1 \<Rightarrow>
                        (case removeTestItem item c1 of
                           None \<Rightarrow> None
                         | Some c2 \<Rightarrow> Some (createClassTestItem env definition parent c2)))))"

definition getMethodTestItem ::
  "TestItemDefinition \<Rightarrow> string option \<Rightarrow> Catalog \<Rightarrow> Catalog \<times> string" where
  "getMethodTestItem definition parent c =
     (let i = getMethodId definition;
          label = getMethodLabel definition
      in case getExistingTestItem c i of
           Some item \<Rightarrow>
             (let c1 = updateItem item
                         (\<lambda>it. it\<lparr> itemLabel := setLabelIcon (getType definition) label \<rparr>) c;
                  c2 = updateItem item (\<lambda>it. it\<lparr> itemRange := getRange definition \<rparr>) c1;
                  c3 = (case parent of
                          Some p \<Rightarrow> if parentOf c2 item \<noteq> Some p then childrenAdd p item c2 else c2
                        | None \<Rightarrow> c2);
                  c4 = testItemMapSet item definition c3
              in (c4, item))
         | None \<Rightarrow>
             (let c1 = addTestItem i label definition (getUri definition) parent c;
                  c2 = updateItem i (\<lambda>item. item\<lparr> itemRange := getRange definition \<rparr>) c1;
                  c3 = updateItem i (\<lambda>item. item\<lparr> itemCanResolveChildren := False \<rparr>) c2
              in (c3, i)))"

subsection \<open>Reconciliation of a test file (\<^verbatim>\<open>parseTestDocument\<close>)\<close>

text \<open>
  The test suite handed to \<^verbatim>\<open>parseTestDocument\<close>: a suite of the configuration or the
  item of one.
\<close>

datatype SuiteArgument = SuiteOfConfig TestSuite | SuiteItem string

text \<open>
  The loop over the definitions of the file. The state is the catalog, the variable
  \<^verbatim>\<open>parentTestItem\<close> and the list \<^verbatim>\<open>existingTestItems\<close>, from which the ID of every
  item the loop meets is taken out.
\<close>

fun processDefinitions ::
  "Env \<Rightarrow> string \<Rightarrow> string option \<Rightarrow> TestItemDefinition list
     \<Rightarrow> Catalog \<times> string option \<times> string list
     \<Rightarrow> (Catalog \<times> string option \<times> string list) option" where
  "processDefinitions env workspaceFolder testSuiteTestItem [] state = Some state"
| "processDefinitions env workspaceFolder testSuiteTestItem (definition # rest)
     (c, parentTestItem, existingTestItems) =
     (if getType definition = ItemClass then
        (let (c1, parent1) =
               (if truthy (getNamespaceName definition)
                then getNamespaceTestItem env workspaceFolder definition testSuiteTestItem c
                else (c, testSuiteTestItem))
         in case getClassTestItem env definition parent1 c1 of
              None \<Rightarrow> None
            | Some (c2, classItem) \<Rightarrow>
                processDefinitions env workspaceFolder testSuiteTestItem rest
                  (c2, Some classItem, remove1 classItem existingTestItems))
      else if getType definition = ItemMethod then
        (let (c1, methodItem) = getMethodTestItem definition parentTestItem c
         in processDefinitions env workspaceFolder testSuiteTestItem rest
              (c1, parentTestItem, remove1 methodItem existingTestItems))
      else processDefinitions env workspaceFolder testSuiteTestItem rest
             (c, parentTestItem, existingTestItems))"

text \<open>The clean-up of the orphans: every ID left in the list that is still registered.\<close>

fun removeOrphans :: "string list \<Rightarrow> Catalog \<Rightarrow> Catalog option" where
  "removeOrphans [] c = Some c"
| "removeOrphans (existingTestItemId # rest) c =
     (case getTestItem c existingTestItemId of
        None \<Rightarrow> removeOrphans rest c
      | Some existingTestItem \<Rightarrow>
          (case removeTestItem existingTestItem c of
             None \<Rightarrow> None
           | Some c1 \<Rightarrow> removeOrphans rest c1))"

text \<open>
  The part of \<^verbatim>\<open>parseTestDocument\<close> that gets the item of the parent test suite: the
  catalog after it, the item, and whether the function goes on. With test suites in use
  and no suite found it does not.
\<close>

definition resolveTestSuiteTestItem ::
  "Env \<Rightarrow> string \<Rightarrow> string \<Rightarrow> SuiteArgument option \<Rightarrow> Catalog
     \<Rightarrow> Catalog \<times> string option \<times> bool" where
  "resolveTestSuiteTestItem env workspaceFolder documentUri testSuite c =
     (if isUsingTestSuiteDefinitions env workspaceFolder = True
      then
        (let (c1, testSuiteTestItem) =
               (case testSuite of
                  Some (SuiteOfConfig suite) \<Rightarrow>
                    (let (c2, item) = getSuiteTestItem env suite c in (c2, Some item))
                | Some (SuiteItem item) \<Rightarrow> (c, Some item)
                | None \<Rightarrow> findSuiteTestItemForTestDocument env workspaceFolder documentUri c)
         in (c1, testSuiteTestItem, testSuiteTestItem \<noteq> None))
      else (c, None, True))"

text \<open>
  \<^verbatim>\<open>parseTestDocument\<close>. The definitions are what the parser returns for the text of
  the document. The result is the catalog when the function returns.
\<close>

definition parseTestDocument ::
  "Env \<Rightarrow> string \<Rightarrow> TestItemDefinition list \<Rightarrow> string option \<Rightarrow> SuiteArgument option
     \<Rightarrow> Catalog \<Rightarrow> Catalog option" where
  "parseTestDocument env documentUri testDefinitions workspaceFolderArgument testSuite c =
     (case (case workspaceFolderArgument of
              Some w \<Rightarrow> Some w
            | None \<Rightarrow> getWorkspaceFolder env documentUri) of
        None \<Rightarrow> Some c
      | Some workspaceFolder \<Rightarrow>
          (let existingTestItems = getTestItemIdsForFile c documentUri;
               (c1, testSuiteTestItem, proceed) =
                 resolveTestSuiteTestItem env workspaceFolder documentUri testSuite c
           in if \<not> proceed then Some c1
              else
                (case processDefinitions env workspaceFolder testSuiteTestItem testDefinitions
                        (c1, None, existingTestItems) of
                   None \<Rightarrow> None
                 | Some (c2, parentTestItem, orphans) \<Rightarrow> removeOrphans orphans c2)))"

section \<open>Notions used to state the properties\<close>

subsection \<open>Run queue and continuous runs\<close>


text \<open>Every expression of the configured path mappings can be constructed.\<close>

definition allCompile :: "regExp \<Rightarrow> PathMapping list \<Rightarrow> bool" where
  "allCompile RegExp pathMappings =
     list_all (\<lambda>m. RegExp (sourcePattern m) \<noteq> None \<and> RegExp (testPattern m) \<noteq> None)
       pathMappings"

text \<open>One of the two expressions of some configured pair matches the changed file.\<close>

definition mappingMatches :: "regExp \<Rightarrow> PathMapping list \<Rightarrow> string \<Rightarrow> bool" where
  "mappingMatches RegExp pathMappings relativePath =
     list_ex (\<lambda>m. case (RegExp (sourcePattern m), RegExp (testPattern m)) of
                     (Some sourceTest, Some testTest) \<Rightarrow>
                       sourceTest relativePath \<or> testTest relativePath
                   | _ \<Rightarrow> False) pathMappings"

text \<open>
  The file that an exact-file pattern names, in the words of the specification: the
  pattern itself or, for a pattern that ends with a method (\<^verbatim>\<open>::test...\<close>), the pattern
  without that method. It is what the template \<^verbatim>\<open>::${methodName}\<close> would leave.
\<close>

definition patternFile :: "string \<Rightarrow> string" where
  "patternFile testFile =
     (case methodMatch testFile of
        Some methodName \<Rightarrow> replaceFirst (''::'' @ methodName) [] testFile
      | None \<Rightarrow> testFile)"

text \<open>
  A positive match of a changed file for an exact-file pattern: the changed file is the
  file that the pattern names, or the source path inferred from that file, or it matches
  a configured pair.
\<close>

definition positiveMatch ::
  "regExp \<Rightarrow> PathMapping list \<Rightarrow> ContinuousTestRunDefinition \<Rightarrow> string \<Rightarrow> bool" where
  "positiveMatch RegExp pathMappings continuousRun relativePath =
     (patternFile (pattern continuousRun) = relativePath
      \<or> convertTestPathToSourcePath (patternFile (pattern continuousRun)) = relativePath
      \<or> mappingMatches RegExp pathMappings relativePath)"

text \<open>
  The pattern names a file alone, no method; or the changed file matches a configured pair,
  which does not depend on the pattern.
\<close>

definition fileAloneOrPair ::
  "regExp \<Rightarrow> PathMapping list \<Rightarrow> ContinuousTestRunDefinition \<Rightarrow> string \<Rightarrow> bool" where
  "fileAloneOrPair RegExp pathMappings continuousRun relativePath =
     (methodMatch (pattern continuousRun) = None \<or> mappingMatches RegExp pathMappings relativePath)"

subsection \<open>Catalogs that match a list of definitions\<close>

definition emptyCatalog :: Catalog where
  "emptyCatalog = \<lparr> items = [], ctrlItems = [], testItemMap = [] \<rparr>"

text \<open>The ID of the item that reconciliation finds or creates for a definition.\<close>

definition definitionId :: "TestItemDefinition \<Rightarrow> string option" where
  "definitionId d =
     (if getType d = ItemClass then Some (getClassId d)
      else if getType d = ItemMethod then Some (getMethodId d)
      else None)"

definition definitionIds :: "TestItemDefinition list \<Rightarrow> string list" where
  "definitionIds ds = List.map_filter definitionId ds"

text \<open>The class item below which the methods after a list of definitions are placed.\<close>

fun parentAfter :: "string option \<Rightarrow> TestItemDefinition list \<Rightarrow> string option" where
  "parentAfter parent [] = parent"
| "parentAfter parent (d # ds) =
     parentAfter (if getType d = ItemClass then Some (getClassId d) else parent) ds"

text \<open>
  The node of a class definition is in place: resolving its placement creates nothing and
  gives the parent the node has, and the node carries the label, range and definition
  that the definition gives.
\<close>

definition classInPlace ::
  "Env \<Rightarrow> string \<Rightarrow> string option \<Rightarrow> TestItemDefinition \<Rightarrow> Catalog \<Rightarrow> bool" where
  "classInPlace env workspaceFolder testSuiteTestItem d c =
     (case (if truthy (getNamespaceName d)
            then getNamespaceTestItem env workspaceFolder d testSuiteTestItem c
            else (c, testSuiteTestItem)) of
        (c1, parent1) \<Rightarrow>
          c1 = c \<and> parentOf c (getClassId d) = parent1
          \<and> getTestDefinition c (getClassId d) = Some d
          \<and> (case getItem c (getClassId d) of
                None \<Rightarrow> False
              | Some item \<Rightarrow>
                  itemLabel item = setLabelIcon (getType d) (classLabelFor env d parent1)
                  \<and> itemRange item = getRange d))"

text \<open>
  The node of a method definition is in place: it is registered with that definition,
  lies below the current class node, and carries the label and range of the definition.
\<close>

definition methodInPlace :: "string option \<Rightarrow> TestItemDefinition \<Rightarrow> Catalog \<Rightarrow> bool" where
  "methodInPlace parent d c =
     (getTestDefinition c (getMethodId d) = Some d
      \<and> (case parent of Some p \<Rightarrow> parentOf c (getMethodId d) = Some p | None \<Rightarrow> True)
      \<and> (case getItem c (getMethodId d) of
            None \<Rightarrow> False
          | Some item \<Rightarrow>
              itemLabel item = setLabelIcon (getType d) (getMethodLabel d)
              \<and> itemRange item = getRange d))"

text \<open>Every definition of a list has its node in place, in the order of the list.\<close>

fun inPlace ::
  "Env \<Rightarrow> string \<Rightarrow> string option \<Rightarrow> string option \<Rightarrow> TestItemDefinition list \<Rightarrow> Catalog
     \<Rightarrow> bool" where
  "inPlace env workspaceFolder testSuiteTestItem parent [] c = True"
| "inPlace env workspaceFolder testSuiteTestItem parent (d # ds) c =
     (if getType d = ItemClass
      then classInPlace env workspaceFolder testSuiteTestItem d c
           \<and> inPlace env workspaceFolder testSuiteTestItem (Some (getClassId d)) ds c
      else if getType d = ItemMethod
      then methodInPlace parent d c \<and> inPlace env workspaceFolder testSuiteTestItem parent ds c
      else inPlace env workspaceFolder testSuiteTestItem parent ds c)"

text \<open>
  The catalog of one file with a class and its methods, placed at the top level: the class
  item with the methods as its children, and an item below it for every method.
\<close>

definition classNode :: "Env \<Rightarrow> TestItemDefinition \<Rightarrow> TestItemDefinition list \<Rightarrow> TestItemObject" where
  "classNode env d ms =
     \<lparr> itemLabel = setLabelIcon (getType d) (classLabelFor env d None), itemUri = getUri d,
       itemRange = getRange d, itemCanResolveChildren = True, itemParent = None,
       itemChildren = map getMethodId ms \<rparr>"

definition methodNode :: "TestItemDefinition \<Rightarrow> TestItemDefinition \<Rightarrow> TestItemObject" where
  "methodNode d m =
     \<lparr> itemLabel = setLabelIcon (getType m) (getMethodLabel m), itemUri = getUri m,
       itemRange = getRange m, itemCanResolveChildren = False, itemParent = Some (getClassId d),
       itemChildren = [] \<rparr>"

definition flatCatalog :: "Env \<Rightarrow> TestItemDefinition \<Rightarrow> TestItemDefinition list \<Rightarrow> Catalog" where
  "flatCatalog env d ms =
     \<lparr> items = (getClassId d, classNode env d ms) # map (\<lambda>m. (getMethodId m, methodNode d m)) ms,
       ctrlItems = [getClassId d],
       testItemMap = (getClassId d, d) # map (\<lambda>m. (getMethodId m, m)) ms \<rparr>"

text \<open>The workspace folder that \<^verbatim>\<open>parseTestDocument\<close> works with.\<close>

definition workspaceFolderFor :: "Env \<Rightarrow> string \<Rightarrow> string option \<Rightarrow> string option" where
  "workspaceFolderFor env documentUri workspaceFolderArgument =
     (case workspaceFolderArgument of
        Some w \<Rightarrow> Some w
      | None \<Rightarrow> getWorkspaceFolder env documentUri)"

subsection \<open>An example workspace\<close>

text \<open>
  A workspace folder \<^verbatim>\<open>/ws\<close> with the test file \<^verbatim>\<open>/ws/tests/Unit/ATest.php\<close>, which
  holds the class \<^verbatim>\<open>ATest\<close> of the namespace \<^verbatim>\<open>App\Unit\<close>. IDs are made of the location
  and, where there is one, the name. Every directory exists.
\<close>

definition exampleEnv :: Env where
  "exampleEnv =
     \<lparr> getWorkspaceFolder = (\<lambda>uri. Some ''/ws''),
       isUsingTestSuiteDefinitions = (\<lambda>workspaceFolder. False),
       isOrganizedByNamespace = False,
       getWorkspaceNamespaceMap = (\<lambda>workspaceFolder. []),
       getWorkspaceTestSuites = (\<lambda>workspaceFolder. []),
       languagesMatch = (\<lambda>glob uri. False),
       directoryExists = (\<lambda>path. True),
       generateTestItemId =
         (\<lambda>itemType uri itemName. uri @ (case itemName of None \<Rightarrow> [] | Some n \<Rightarrow> ''::'' @ n)) \<rparr>"


text \<open>The same workspace with test suites in use and no suite that matches a file.\<close>

definition exampleSuiteEnv :: Env where
  "exampleSuiteEnv = exampleEnv\<lparr> isUsingTestSuiteDefinitions := (\<lambda>workspaceFolder. True) \<rparr>"

definition exampleFile :: string where
  "exampleFile = ''/ws/tests/Unit/ATest.php''"

definition exampleClass :: TestItemDefinition where
  "exampleClass =
     \<lparr> getType = ItemClass, getUri = exampleFile, getRange = Some (3, 40),
       getNamespaceName = Some (''App'' @ [backslash] @ ''Unit''), getClassId = exampleFile,
       getClassName = ''ATest'', getClassLabel = ''ATest'', getMethodId = [],
       getMethodLabel = [] \<rparr>"

definition exampleMethod :: "string \<Rightarrow> TestItemDefinition" where
  "exampleMethod methodName =
     \<lparr> getType = ItemMethod, getUri = exampleFile, getRange = Some (5, 9),
       getNamespaceName = Some (''App'' @ [backslash] @ ''Unit''), getClassId = exampleFile,
       getClassName = ''ATest'', getClassLabel = ''ATest'',
       getMethodId = exampleFile @ ''::'' @ methodName, getMethodLabel = methodName \<rparr>"

text \<open>Reconciliation of the example file, with neither workspace folder nor suite given.\<close>

definition reconcile :: "Env \<Rightarrow> TestItemDefinition list \<Rightarrow> Catalog \<Rightarrow> Catalog option" where
  "reconcile env testDefinitions c = parseTestDocument env exampleFile testDefinitions None None c"

text \<open>The IDs of the registered items of a catalog.\<close>

definition registeredIds :: "Catalog \<Rightarrow> string list" where
  "registeredIds c = map fst (testItemMap c)"

text \<open>Two entries of a namespace map that both fit a class of \<^verbatim>\<open>App\Tests\Unit\<close>.\<close>

definition shortMapping :: AutoloaderDefinition where
  "shortMapping = \<lparr> getNamespace = ''App'' @ [backslash], getDirectoryPath = ''/ws/'' \<rparr>"

definition longMapping :: AutoloaderDefinition where
  "longMapping =
     \<lparr> getNamespace = ''App'' @ [backslash] @ ''Tests'' @ [backslash],
       getDirectoryPath = ''/ws/tests/'' \<rparr>"

text \<open>Continuous runs for a wildcard pattern and for two files.\<close>

definition wildcardRun :: ContinuousTestRunDefinition where
  "wildcardRun = \<lparr> pattern = ''tests/**/*Test.php'', runRequest = 1, isDebug = False \<rparr>"

definition fooRun :: ContinuousTestRunDefinition where
  "fooRun = \<lparr> pattern = ''tests/FooTest.php'', runRequest = 2, isDebug = False \<rparr>"

definition barRun :: ContinuousTestRunDefinition where
  "barRun = \<lparr> pattern = ''tests/BarTest.php'', runRequest = 3, isDebug = False \<rparr>"

text \<open>A continuous run for one method of \<^verbatim>\<open>tests/FooTest.php\<close>.\<close>

definition fooMethodRun :: ContinuousTestRunDefinition where
  "fooMethodRun = \<lparr> pattern = ''tests/FooTest.php::testBar'', runRequest = 4, isDebug = False \<rparr>"


chapter \<open>Verification\<close>

section \<open>String operations\<close>

lemma replaceAll_Nil: "replaceAll pat rep [] = []"
  by (subst replaceAll.simps) simp

lemma replaceAll_Cons:
  "replaceAll pat rep (c # cs) =
     (if pat \<noteq> [] \<and> prefix pat (c # cs)
      then rep @ replaceAll pat rep (drop (length pat) (c # cs))
      else c # replaceAll pat rep cs)"
  by (subst replaceAll.simps) simp








lemma indexOf_absent: "c \<notin> set s \<Longrightarrow> indexOf c s = - 1"
  by (induction s) (auto simp: Let_def)

lemma indexOf_present: "c \<in> set s \<Longrightarrow> 0 \<le> indexOf c s"
  by (induction s) (auto simp: Let_def)


text \<open>Trimming the end of a text that starts with no white space leaves its start alone.\<close>

lemma trimStart_trimEnd:
  assumes "trimStart s = s"
  shows "trimStart (trimEnd s) = trimEnd s"
proof (cases s)
  case Nil
  then show ?thesis by (simp add: trimStart_def trimEnd_def)
next
  case (Cons x xs)
  with assms have nx: "\<not> isWhiteSpace x"
    unfolding trimStart_def
    by (metis dropWhile.simps(2) length_Cons length_dropWhile_le lessI not_less)
  have "\<exists>zs. dropWhile isWhiteSpace (rev xs @ [x]) = zs @ [x]"
    using nx by (cases "\<forall>y\<in>set (rev xs). isWhiteSpace y") (simp_all add: dropWhile_append)
  then obtain zs where "dropWhile isWhiteSpace (rev xs @ [x]) = zs @ [x]" by blast
  then show ?thesis
    using nx Cons by (simp add: trimStart_def trimEnd_def)
qed

section \<open>Decoding of escaped payloads\<close>

text \<open>One replacement of the source turns the payload of its stage into that of the next.\<close>

lemma replace_stage:
  "replaceAll (tokenText tk) (tokenChars tk) (concat (map (render (tokenRank tk)) ts))
     = concat (map (render (Suc (tokenRank tk))) ts)"
proof (induction ts)
  case Nil
  show ?case by (simp add: replaceAll_Nil)
next
  case (Cons t ts)
  then show ?case
    by (cases tk; cases t) (simp_all add: render_def replaceAll_Cons)
qed

lemma render_first: "map (render 0) ts = map tokenText ts"
  by (simp add: render_def)

lemma render_last: "map (render 6) ts = map tokenChars ts"
proof -
  have "tokenRank t < 6" for t by (cases t) simp_all
  then show ?thesis by (simp add: render_def)
qed

lemma unescape_encoded: "unescapeTeamcityString (encoded ts) = decoded ts"
proof -
  have s0: "encoded ts = concat (map (render 0) ts)"
    by (simp add: encoded_def render_first)
  have s1: "replaceAll [CHR ''|'', CHR 0x27] [CHR 0x27] (concat (map (render 0) ts))
              = concat (map (render 1) ts)"
    using replace_stage [of SingleQuote ts] by simp
  have s2: "replaceAll [CHR ''|'', CHR 0x22] [CHR 0x22] (concat (map (render 1) ts))
              = concat (map (render 2) ts)"
    using replace_stage [of DoubleQuote ts] by (simp add: eval_nat_numeral)
  have s3: "replaceAll ''|['' ''['' (concat (map (render 2) ts)) = concat (map (render 3) ts)"
    using replace_stage [of OpenBracket ts] by (simp add: eval_nat_numeral)
  have s4: "replaceAll ''|]'' '']'' (concat (map (render 3) ts)) = concat (map (render 4) ts)"
    using replace_stage [of CloseBracket ts] by (simp add: eval_nat_numeral)
  have s5: "replaceAll ''|r|n'' [CHR 0x0D, CHR 0x0A] (concat (map (render 4) ts))
              = concat (map (render 5) ts)"
    using replace_stage [of CarriageReturnLineFeed ts] by (simp add: eval_nat_numeral)
  have s6: "replaceAll ''|n'' [CHR 0x0A] (concat (map (render 5) ts))
              = concat (map (render 6) ts)"
    using replace_stage [of LineFeed ts] by (simp add: eval_nat_numeral)
  show ?thesis
    unfolding unescapeTeamcityString_def Let_def s0 s1 s2 s3 s4 s5 s6
    by (simp add: render_last decoded_def)
qed

text \<open>
  Claim C5, as amended. For every payload built only from the escape tokens whose
  decoded text does not start with white space, decoding replaces each token by its
  characters (\<^verbatim>\<open>|r|n\<close> before \<^verbatim>\<open>|n\<close>) and then removes the white space at the end:
  the result is the encoded text without its trailing line breaks.
\<close>

theorem escape_round_trip:
  assumes "trimStart (decoded ts) = decoded ts"
  shows "unescapeTeamcityString (encoded ts) = decoded ts
       \<and> parseEscapedTeamcityString (encoded ts) = trimEnd (decoded ts)"
  using assms
  by (simp add: parseEscapedTeamcityString_def unescape_encoded trim_def trimStart_trimEnd)

text \<open>
  The amended claim C5 at the payload \<^verbatim>\<open>|[|n|'|r|n\<close>: it decodes to an opening
  bracket, a line feed and a single quote; the CR LF at the end is trimmed.
\<close>

theorem escape_round_trip_witness:
  "trimStart (decoded [OpenBracket, LineFeed, SingleQuote, CarriageReturnLineFeed])
     = decoded [OpenBracket, LineFeed, SingleQuote, CarriageReturnLineFeed]
   \<and> parseEscapedTeamcityString
         (encoded [OpenBracket, LineFeed, SingleQuote, CarriageReturnLineFeed])
     = [CHR ''['', CHR 0x0A, CHR 0x27]"
proof -
  have h: "trimStart (decoded [OpenBracket, LineFeed, SingleQuote, CarriageReturnLineFeed])
     = decoded [OpenBracket, LineFeed, SingleQuote, CarriageReturnLineFeed]"
    by (simp add: trimStart_def decoded_def isWhiteSpace_def)
  show ?thesis
    using h escape_round_trip [OF h] by (simp add: trimEnd_def decoded_def isWhiteSpace_def)
qed

text \<open>
  Claim C5 as stated fails: the text made of a single quote and a line feed is encoded
  as \<^verbatim>\<open>|'|n\<close>, and decoding that payload gives the single quote alone.
\<close>

theorem escape_round_trip_counterexample:
  "parseEscapedTeamcityString (encoded [SingleQuote, LineFeed]) \<noteq> decoded [SingleQuote, LineFeed]"
  by (simp add: parseEscapedTeamcityString_def unescape_encoded trim_def trimStart_def
      trimEnd_def decoded_def isWhiteSpace_def)

section \<open>Location of a failure\<close>






section \<open>Fresh results and blank messages\<close>

lemma present_blank: "m = None \<or> m = Some [] \<Longrightarrow> present m = None"
  by (auto simp: present_def)

lemma status_setters:
  "status (setMessage m r) = status r"
  "status (setMessageDetail N md r) = status r"
  "status (setFailureType v r) = status r"
  "status (setExpectedValue v r) = status r"
  "status (setActualValue v r) = status r"
  "status (setDataSetIdentifier v r) = status r"
  by (simp_all add: setMessage_def setMessageDetail_def setFailureType_def setExpectedValue_def
      setActualValue_def setDataSetIdentifier_def Let_def split: option.splits)

lemma message_setters:
  "message (setMessageDetail N md r) = message r"
  "message (setFailureType v r) = message r"
  "message (setExpectedValue v r) = message r"
  "message (setActualValue v r) = message r"
  "message (setDataSetIdentifier v r) = message r"
  by (simp_all add: setMessageDetail_def setFailureType_def setExpectedValue_def
      setActualValue_def setDataSetIdentifier_def Let_def split: option.splits)

lemma messageDetail_setters:
  "messageDetail (setMessage m r) = messageDetail r"
  "messageDetail (setFailureType v r) = messageDetail r"
  "messageDetail (setExpectedValue v r) = messageDetail r"
  "messageDetail (setActualValue v r) = messageDetail r"
  "messageDetail (setDataSetIdentifier v r) = messageDetail r"
  by (simp_all add: setMessage_def setFailureType_def setExpectedValue_def
      setActualValue_def setDataSetIdentifier_def Let_def split: option.splits)

lemma setMessage_blank: "m = None \<or> m = Some [] \<Longrightarrow> setMessage m r = r"
  by (simp add: setMessage_def present_blank)

lemma setMessageDetail_blank: "md = None \<or> md = Some [] \<Longrightarrow> setMessageDetail N md r = r"
  by (simp add: setMessageDetail_def present_blank)

text \<open>
  Claim C10. A fresh result has status \<open>unknown\<close>, duration 0 and neither message nor
  detail. With a message \<open>m\<close> that is \<^verbatim>\<open>undefined\<close> or empty, \<^verbatim>\<open>markFailed\<close>,
  \<^verbatim>\<open>markErrored\<close> and \<^verbatim>\<open>markIgnored\<close> set their status and do not assign the message,
  whatever the other arguments; likewise for a detail \<open>md\<close> that is \<^verbatim>\<open>undefined\<close> or
  empty and the detail field. A field that was unset stays unset, never the empty text.
\<close>

theorem blank_message_left_unset:
  fixes r :: "('n::zero) TestResult"
  assumes m: "m = None \<or> m = Some []" and md: "md = None \<or> md = Some []"
  shows "status (newTestResult nm it :: 'n TestResult) = unknown
       \<and> duration (newTestResult nm it :: 'n TestResult) = 0
       \<and> message (newTestResult nm it :: 'n TestResult) = None
       \<and> messageDetail (newTestResult nm it :: 'n TestResult) = None
       \<and> status (markFailed N m d' ft ev av ds r) = failed
       \<and> message (markFailed N m d' ft ev av ds r) = message r
       \<and> status (markFailed N m' md ft ev av ds r) = failed
       \<and> messageDetail (markFailed N m' md ft ev av ds r) = messageDetail r
       \<and> status (markErrored N m d' ft ev av ds r) = error
       \<and> message (markErrored N m d' ft ev av ds r) = message r
       \<and> status (markErrored N m' md ft ev av ds r) = error
       \<and> messageDetail (markErrored N m' md ft ev av ds r) = messageDetail r
       \<and> status (markIgnored N m d' r) = ignored
       \<and> message (markIgnored N m d' r) = message r
       \<and> status (markIgnored N m' md r) = ignored
       \<and> messageDetail (markIgnored N m' md r) = messageDetail r"
  using m md
  by (simp add: markFailed_def markErrored_def markIgnored_def newTestResult_def
      setMessage_blank setMessageDetail_blank status_setters message_setters
      messageDetail_setters)

text \<open>
  Claim C10 on a fresh result: \<^verbatim>\<open>markFailed\<close> with the empty text as message and no
  detail gives status \<open>failed\<close> and leaves message and detail unset.
\<close>

theorem blank_message_left_unset_witness:
  "status (newTestResult ''t'' ''id'' :: jsNumber TestResult) = unknown
   \<and> duration (newTestResult ''t'' ''id'' :: jsNumber TestResult) = 0
   \<and> status (markFailed NumberOfDigits (Some []) None None None None None
        (newTestResult ''t'' ''id'')) = failed
   \<and> message (markFailed NumberOfDigits (Some []) None None None None None
        (newTestResult ''t'' ''id'')) = None
   \<and> messageDetail (markFailed NumberOfDigits (Some []) None None None None None
        (newTestResult ''t'' ''id'')) = None"
proof -
  have a: "Some [] = None \<or> Some [] = Some ([]::string)" by simp
  have b: "(None::string option) = None \<or> (None::string option) = Some []" by simp
  show ?thesis
    using blank_message_left_unset [OF a b, of "''t''" "''id''" NumberOfDigits None None None
        None None "newTestResult ''t'' ''id''" "Some []"]
    by simp
qed

section \<open>Re-running without a previous run\<close>

text \<open>
  Claim C7 on the code. In every state without a record of a most recent run,
  \<^verbatim>\<open>rerunMostRecentRunRequest\<close> gives the message to the user and goes on: the next
  statement reads \<^verbatim>\<open>request\<close> of \<^verbatim>\<open>undefined\<close>, so the function ends with a
  \<^verbatim>\<open>TypeError\<close> and starts no run.
\<close>

theorem rerun_without_previous_run:
  "rerunMostRecentRunRequest (s\<lparr> mostRecentTestRunRequest := None \<rparr>)
     = (s\<lparr> mostRecentTestRunRequest := None,
            loggedErrors := loggedErrors s @
              [(''Unable to re-run test, as no test runs have been completed successfully yet.'',
                True)] \<rparr>,
        Inl TypeError)"
  by (simp add: rerunMostRecentRunRequest_def)

section \<open>The run queue holds the subtree\<close>












section \<open>Changed files and continuous runs\<close>

lemma matchesPathMapping_compiled:
  "allCompile RegExp ms \<Longrightarrow>
     matchesPathMapping RegExp ms rel = Inr (mappingMatches RegExp ms rel)"
  by (induction ms) (auto simp: allCompile_def mappingMatches_def)

lemma checkPatterns_returns:
  "allCompile RegExp ms \<Longrightarrow> \<exists>started. checkPatterns RegExp ms active todo rel = Inr started"
  by (induction todo) (auto simp: matchesPathMapping_compiled Let_def split: bool.splits)

lemma checkPatterns_all:
  assumes "allCompile RegExp ms"
      and "list_all (\<lambda>b. \<not> isGlobPattern (pattern b)) (before @ [cr])"
      and "positiveMatch RegExp ms cr rel"
      and "fileAloneOrPair RegExp ms cr rel"
  shows "checkPatterns RegExp ms active (before @ cr # after) rel = Inr active"
  using assms(2)
proof (induction before)
  case Nil
  then show ?case
    using assms(1,3,4)
    by (auto simp: matchesPathMapping_compiled positiveMatch_def fileAloneOrPair_def
        patternFile_def testFilePathOf_def runAllContinuousTests_def Let_def
        split: bool.splits)
next
  case (Cons b before)
  then show ?case
    using assms(1)
    by (auto simp: matchesPathMapping_compiled runAllContinuousTests_def Let_def
        split: bool.splits)
qed

text \<open>
  The text that the loop compares with the changed file is the whole pattern, also when
  the pattern ends with a method: the literal text \<^verbatim>\<open>::{methodName}\<close> that the source
  replaces contains a brace, which no exact-file pattern does.
\<close>

lemma includesChar_replaceFirst:
  "\<not> includesChar s ch \<Longrightarrow> ch \<in> set pat \<Longrightarrow> replaceFirst pat rep s = s"
proof (induction s)
  case Nil
  then show ?case by auto
next
  case (Cons c cs)
  have out: "ch \<notin> set (c # cs)"
    using Cons.prems(1) indexOf_present [of ch "c # cs"] by (auto simp: includesChar_def)
  then have "\<not> prefix pat (c # cs)"
    using Cons.prems(2) set_mono_prefix [of pat "c # cs"] by auto
  moreover have "\<not> includesChar cs ch"
    using out by (simp add: includesChar_def indexOf_absent)
  ultimately show ?case
    using Cons by simp
qed

lemma testFilePathOf_exact: "\<not> isGlobPattern testFile \<Longrightarrow> testFilePathOf testFile = testFile"
  by (simp add: testFilePathOf_def isGlobPattern_def includesChar_replaceFirst [where ch = "CHR ''{''"]
      split: option.splits)

text \<open>
  Claim C8, as amended. When every expression of the configured path mappings can be
  constructed, evaluating a changed file against the active runs returns, whatever the
  patterns and the file. If moreover an exact-file pattern has a positive match (the
  file it names, the source path inferred from that file, or a configured pair), the
  pattern names a file alone or the match is one of a configured pair, and neither the
  pattern nor a pattern before it in the map of active runs is a wildcard pattern, a run
  is started for every active run.
\<close>

theorem exact_match_runs_all:
  assumes "allCompile RegExp pathMappings"
  shows "(\<exists>started. checkForActiveContinuousRun RegExp pathMappings active relativePath = Inr started)
       \<and> (active = before @ continuousRun # after
            \<and> list_all (\<lambda>b. \<not> isGlobPattern (pattern b)) (before @ [continuousRun])
            \<and> positiveMatch RegExp pathMappings continuousRun relativePath
            \<and> fileAloneOrPair RegExp pathMappings continuousRun relativePath
          \<longrightarrow> checkForActiveContinuousRun RegExp pathMappings active relativePath = Inr active)"
  using assms checkPatterns_returns [OF assms] checkPatterns_all [OF assms]
  by (auto simp: checkForActiveContinuousRun_def)

text \<open>
  The amended claim C8 with the runs for \<^verbatim>\<open>tests/BarTest.php\<close> and
  \<^verbatim>\<open>tests/FooTest.php\<close> and the changed file \<^verbatim>\<open>src/Foo.php\<close>, the source inferred for
  the second: both runs are started.
\<close>

theorem exact_match_runs_all_witness:
  "allCompile exampleRegExp [\<lparr> sourcePattern = ''^src/'', testPattern = ''^src/'' \<rparr>]
   \<and> list_all (\<lambda>b. \<not> isGlobPattern (pattern b)) ([barRun] @ [fooRun])
   \<and> positiveMatch exampleRegExp [\<lparr> sourcePattern = ''^src/'', testPattern = ''^src/'' \<rparr>] fooRun ''src/Foo.php''
   \<and> fileAloneOrPair exampleRegExp [\<lparr> sourcePattern = ''^src/'', testPattern = ''^src/'' \<rparr>] fooRun ''src/Foo.php''
   \<and> checkForActiveContinuousRun exampleRegExp
        [\<lparr> sourcePattern = ''^src/'', testPattern = ''^src/'' \<rparr>] [barRun, fooRun] ''src/Foo.php''
       = Inr [barRun, fooRun]"
proof -
  have a: "allCompile exampleRegExp [\<lparr> sourcePattern = ''^src/'', testPattern = ''^src/'' \<rparr>]"
    by code_simp
  have g: "list_all (\<lambda>b. \<not> isGlobPattern (pattern b)) ([barRun] @ [fooRun])"
    by code_simp
  have p: "positiveMatch exampleRegExp [\<lparr> sourcePattern = ''^src/'', testPattern = ''^src/'' \<rparr>] fooRun ''src/Foo.php''"
    by code_simp
  have f: "fileAloneOrPair exampleRegExp [\<lparr> sourcePattern = ''^src/'', testPattern = ''^src/'' \<rparr>] fooRun ''src/Foo.php''"
    by code_simp
  show ?thesis
    using exact_match_runs_all [OF a, of "[barRun, fooRun]" "''src/Foo.php''" "[barRun]" fooRun "[]"]
      a g p f
    by simp
qed

text \<open>
  Claim C8 as stated fails twice. With a wildcard run before the run for
  \<^verbatim>\<open>tests/FooTest.php\<close>, a change of that file starts the wildcard run alone, although
  the second pattern names the changed file. And with the invalid expression \<^verbatim>\<open>(\<close>
  among the path mappings the evaluation raises a \<^verbatim>\<open>SyntaxError\<close>.
\<close>

theorem exact_match_runs_all_counterexample:
  "checkForActiveContinuousRun exampleRegExp [] [wildcardRun, fooRun] ''tests/FooTest.php''
     = Inr [wildcardRun]
   \<and> patternFile (pattern fooRun) = ''tests/FooTest.php''
   \<and> \<not> isGlobPattern (pattern fooRun)
   \<and> checkForActiveContinuousRun exampleRegExp
        [\<lparr> sourcePattern = ''('', testPattern = ''^src/'' \<rparr>] [fooRun] ''README.md''
     = Inl SyntaxError"
  by code_simp

text \<open>
  A pattern that ends with a method lies outside the amended claim: the run for
  \<^verbatim>\<open>tests/FooTest.php::testBar\<close> names the file \<^verbatim>\<open>tests/FooTest.php\<close>, and a change of
  that file starts no run.
\<close>

lemma method_pattern_starts_no_run:
  "patternFile (pattern fooMethodRun) = ''tests/FooTest.php''
   \<and> testFilePathOf (pattern fooMethodRun) = ''tests/FooTest.php::testBar''
   \<and> checkForActiveContinuousRun exampleRegExp [] [fooMethodRun, barRun] ''tests/FooTest.php''
       = Inr []"
  by code_simp

section \<open>The namespace prefix of a class\<close>

text \<open>
  Claim C4, as amended. Among the entries of the namespace map whose namespace is a
  prefix of the class namespace and whose directory path is a prefix of the path of the
  class file, the one that comes first in the map is selected: its namespace and its
  path, each without the trailing separator.
\<close>

theorem first_mapping_selected:
  assumes "namespaceMap = before @ mapped # after"
      and "list_all (\<lambda>entry. \<not> (prefix (getNamespace entry) classNamespace
                                \<and> prefix (getDirectoryPath entry) classPath)) before"
      and "prefix (getNamespace mapped) classNamespace"
      and "prefix (getDirectoryPath mapped) classPath"
  shows "findNamespacePrefix namespaceMap classNamespace classPath
           = (stripTrailing backslash (getNamespace mapped),
              stripTrailing CHR ''/'' (getDirectoryPath mapped))"
  unfolding assms(1) using assms(2-4)
  by (induction before) auto

text \<open>
  The amended claim C4 with the long entry before the short one: the long one is
  selected, because it comes first.
\<close>

theorem first_mapping_selected_witness:
  "prefix (getNamespace longMapping) (''App'' @ [backslash] @ ''Tests'' @ [backslash] @ ''Unit'')
   \<and> prefix (getDirectoryPath longMapping) ''/ws/tests/Unit/FooTest.php''
   \<and> findNamespacePrefix [longMapping, shortMapping]
         (''App'' @ [backslash] @ ''Tests'' @ [backslash] @ ''Unit'') ''/ws/tests/Unit/FooTest.php''
       = (''App'' @ [backslash] @ ''Tests'', ''/ws/tests'')"
proof -
  have n: "prefix (getNamespace longMapping)
             (''App'' @ [backslash] @ ''Tests'' @ [backslash] @ ''Unit'')"
    by code_simp
  have p: "prefix (getDirectoryPath longMapping) ''/ws/tests/Unit/FooTest.php''"
    by code_simp
  have s: "stripTrailing backslash (getNamespace longMapping) = ''App'' @ [backslash] @ ''Tests''"
    by code_simp
  have t: "stripTrailing CHR ''/'' (getDirectoryPath longMapping) = ''/ws/tests''"
    by code_simp
  have "findNamespacePrefix [longMapping, shortMapping]
          (''App'' @ [backslash] @ ''Tests'' @ [backslash] @ ''Unit'') ''/ws/tests/Unit/FooTest.php''
        = (stripTrailing backslash (getNamespace longMapping),
           stripTrailing CHR ''/'' (getDirectoryPath longMapping))"
    by (rule first_mapping_selected [where before = "[]" and after = "[shortMapping]", OF _ _ n p])
      simp_all
  with n p s t show ?thesis by simp
qed

text \<open>
  Claim C4 as stated fails: both entries fit the class of \<^verbatim>\<open>App\Tests\Unit\<close> in
  \<^verbatim>\<open>/ws/tests/Unit/FooTest.php\<close>, the second has the longer namespace, and the first
  is selected.
\<close>

theorem first_mapping_selected_counterexample:
  "prefix (getNamespace shortMapping) (''App'' @ [backslash] @ ''Tests'' @ [backslash] @ ''Unit'')
   \<and> prefix (getDirectoryPath shortMapping) ''/ws/tests/Unit/FooTest.php''
   \<and> prefix (getNamespace longMapping) (''App'' @ [backslash] @ ''Tests'' @ [backslash] @ ''Unit'')
   \<and> prefix (getDirectoryPath longMapping) ''/ws/tests/Unit/FooTest.php''
   \<and> length (getNamespace shortMapping) < length (getNamespace longMapping)
   \<and> findNamespacePrefix [shortMapping, longMapping]
         (''App'' @ [backslash] @ ''Tests'' @ [backslash] @ ''Unit'') ''/ws/tests/Unit/FooTest.php''
       = (''App'', ''/ws'')"
  by code_simp

section \<open>Reconciliation\<close>

subsection \<open>Items and maps\<close>

lemma updateItem_same:
  assumes "getItem c i = Some item" "f item = item"
  shows "updateItem i f c = c"
  using assms by (simp add: updateItem_def getItem_def update_triv)

lemma testItemMapSet_same:
  "getTestDefinition c i = Some d \<Longrightarrow> testItemMapSet i d c = c"
  by (simp add: testItemMapSet_def getTestDefinition_def update_triv)












subsection \<open>The list of the existing items\<close>

lemma fold_remove1_distinct:
  "distinct E \<Longrightarrow> fold remove1 xs E = filter (\<lambda>x. x \<notin> set xs) E"
proof (induction xs arbitrary: E)
  case Nil
  then show ?case by simp
next
  case (Cons x xs)
  have r: "remove1 x E = filter (\<lambda>y. y \<noteq> x) E"
    using Cons.prems by (simp add: distinct_remove1_removeAll removeAll_filter_not_eq) metis
  have "distinct (remove1 x E)" using Cons.prems by simp
  from Cons.IH [OF this] show ?case
    by (simp add: r conj_commute)
qed


lemma distinct_ids_for_file:
  "distinct (map fst (testItemMap c)) \<Longrightarrow> distinct (getTestItemIdsForFile c uri)"
  by (simp add: getTestItemIdsForFile_def)


subsection \<open>Definitions whose nodes are in place\<close>

lemma getClassTestItem_in_place:
  assumes "getTestDefinition c (getClassId d) = Some d"
      and "parentOf c (getClassId d) = parent"
      and "getItem c (getClassId d) = Some item"
      and "itemLabel item = setLabelIcon (getType d) (classLabelFor env d parent)"
      and "itemRange item = getRange d"
  shows "getClassTestItem env d parent c = Some (c, getClassId d)"
proof -
  have reg: "getExistingTestItem c (getClassId d) = Some (getClassId d)"
    using assms(1) by (simp add: getExistingTestItem_def getTestItem_def getTestDefinition_def)
  have u1: "updateItem (getClassId d)
              (\<lambda>it. it\<lparr> itemLabel := setLabelIcon (getType d) (classLabelFor env d parent) \<rparr>) c = c"
    using assms(3,4) by (intro updateItem_same [of c _ item]) simp_all
  have u2: "updateItem (getClassId d) (\<lambda>it. it\<lparr> itemRange := getRange d \<rparr>) c = c"
    using assms(3,5) by (intro updateItem_same [of c _ item]) simp_all
  show ?thesis
    using assms(1,2)
    by (simp add: getClassTestItem_def reg Let_def u1 u2 testItemMapSet_same)
qed

lemma getMethodTestItem_in_place:
  assumes "methodInPlace parent d c"
  shows "getMethodTestItem d parent c = (c, getMethodId d)"
proof -
  from assms obtain item where item: "getItem c (getMethodId d) = Some item"
    and lab: "itemLabel item = setLabelIcon (getType d) (getMethodLabel d)"
    and rng: "itemRange item = getRange d"
    by (auto simp: methodInPlace_def split: option.splits)
  have def: "getTestDefinition c (getMethodId d) = Some d"
    using assms by (simp add: methodInPlace_def)
  have reg: "getExistingTestItem c (getMethodId d) = Some (getMethodId d)"
    using def by (simp add: getExistingTestItem_def getTestItem_def getTestDefinition_def)
  have u1: "updateItem (getMethodId d)
              (\<lambda>it. it\<lparr> itemLabel := setLabelIcon (getType d) (getMethodLabel d) \<rparr>) c = c"
    using item lab by (intro updateItem_same [of c _ item]) simp_all
  have u2: "updateItem (getMethodId d) (\<lambda>it. it\<lparr> itemRange := getRange d \<rparr>) c = c"
    using item rng by (intro updateItem_same [of c _ item]) simp_all
  have par: "parent = Some p \<Longrightarrow> parentOf c (getMethodId d) = Some p" for p
    using assms by (simp add: methodInPlace_def)
  show ?thesis
    by (cases parent)
      (simp_all add: getMethodTestItem_def reg Let_def u1 u2 par testItemMapSet_same def)
qed

text \<open>
  The loop over definitions whose nodes are in place changes nothing and takes their IDs
  out of the list of the existing items.
\<close>

lemma processDefinitions_in_place:
  "inPlace env w suite parent ds c \<Longrightarrow>
     processDefinitions env w suite ds (c, parent, existing)
       = Some (c, parentAfter parent ds, fold remove1 (definitionIds ds) existing)"
proof (induction ds arbitrary: parent existing)
  case Nil
  then show ?case by (simp add: definitionIds_def List.map_filter_simps)
next
  case (Cons d ds)
  show ?case
  proof (cases "getType d = ItemClass")
    case True
    obtain c1 parent1 where ns: "(if truthy (getNamespaceName d)
            then getNamespaceTestItem env w d suite c else (c, suite)) = (c1, parent1)"
      by (cases "(if truthy (getNamespaceName d)
            then getNamespaceTestItem env w d suite c else (c, suite))") auto
    from Cons.prems True have cp: "classInPlace env w suite d c"
      and rest: "inPlace env w suite (Some (getClassId d)) ds c" by simp_all
    from cp ns have c1: "c1 = c" and par: "parentOf c (getClassId d) = parent1"
      and def: "getTestDefinition c (getClassId d) = Some d"
      by (simp_all add: classInPlace_def)
    from cp ns obtain item where item: "getItem c (getClassId d) = Some item"
      and lab: "itemLabel item = setLabelIcon (getType d) (classLabelFor env d parent1)"
      and rng: "itemRange item = getRange d"
      by (auto simp: classInPlace_def split: option.splits)
    have cls: "getClassTestItem env d parent1 c = Some (c, getClassId d)"
      using def par item lab rng by (rule getClassTestItem_in_place)
    have ids: "definitionIds (d # ds) = getClassId d # definitionIds ds"
      using True by (simp add: definitionIds_def List.map_filter_simps definitionId_def)
    show ?thesis
      using True ns c1 cls Cons.IH [OF rest] by (simp add: ids)
  next
    case False
    show ?thesis
    proof (cases "getType d = ItemMethod")
      case True
      from Cons.prems True False have mp: "methodInPlace parent d c"
        and rest: "inPlace env w suite parent ds c" by simp_all
      have ids: "definitionIds (d # ds) = getMethodId d # definitionIds ds"
        using True by (simp add: definitionIds_def List.map_filter_simps definitionId_def)
      show ?thesis
        using True getMethodTestItem_in_place [OF mp] Cons.IH [OF rest] by (simp add: ids)
    next
      case other: False
      from Cons.prems False other have rest: "inPlace env w suite parent ds c" by simp
      have ids: "definitionIds (d # ds) = definitionIds ds"
        using False other by (simp add: definitionIds_def List.map_filter_simps definitionId_def)
      show ?thesis
        using False other Cons.IH [OF rest] by (simp add: ids)
    qed
  qed
qed

lemma parseTestDocument_in_place:
  assumes wf: "workspaceFolderFor env documentUri workspaceFolderArgument = Some workspaceFolder"
      and suite: "resolveTestSuiteTestItem env workspaceFolder documentUri testSuite c
                    = (c, testSuiteTestItem, True)"
      and placed: "inPlace env workspaceFolder testSuiteTestItem None testDefinitions c"
  shows "parseTestDocument env documentUri testDefinitions workspaceFolderArgument testSuite c
           = removeOrphans (fold remove1 (definitionIds testDefinitions)
                              (getTestItemIdsForFile c documentUri)) c"
  using wf suite processDefinitions_in_place [OF placed]
  by (simp add: parseTestDocument_def workspaceFolderFor_def)





subsection \<open>A first pass from the empty catalog\<close>

text \<open>
  Without placement by namespace and without test suites, reconciling a file that holds a
  class and methods with distinct IDs from the empty catalog creates the class item at the
  top level and the method items below it, and leaves every definition with its node in
  place: a second pass with the same definitions returns the same catalog.
\<close>

lemma update_new: "k \<notin> fst ` set xs \<Longrightarrow> AList.update k v xs = xs @ [(k, v)]"
  by (induction xs) auto

lemma update_last: "k \<notin> fst ` set xs \<Longrightarrow> AList.update k v (xs @ [(k, r)]) = xs @ [(k, v)]"
  by (induction xs) auto

lemma map_of_last: "k \<notin> fst ` set xs \<Longrightarrow> map_of (xs @ [(k, r)]) k = Some r"
  by (induction xs) auto

lemma map_of_new: "k \<notin> fst ` set xs \<Longrightarrow> map_of xs k = None"
  by (simp add: map_of_eq_None_iff)

lemma class_step:
  assumes "isOrganizedByNamespace env = False"
  shows "getClassTestItem env d None emptyCatalog = Some (flatCatalog env d [], getClassId d)"
  by (simp add: getClassTestItem_def getExistingTestItem_def getTestItem_def emptyCatalog_def
      createClassTestItem_def addTestItem_def createTestItem_def testItemMapSet_def
      ctrlItemsAdd_def parentOf_def getItem_def updateItem_def insertId_def flatCatalog_def
      classNode_def Let_def)

lemma method_step_shape:
  assumes ne: "mid \<noteq> cid" and xs: "mid \<notin> fst ` set xs" and ts: "mid \<notin> fst ` set ts"
      and cn: "itemParent cn = None"
      and ty: "getType m = ItemMethod" and mid: "getMethodId m = mid"
  shows "getMethodTestItem m (Some cid)
           \<lparr> items = (cid, cn) # xs, ctrlItems = [cid], testItemMap = (cid, d) # ts \<rparr>
         = (\<lparr> items = (cid, cn\<lparr> itemChildren := insertId mid (itemChildren cn) \<rparr>)
                        # xs @ [(mid, \<lparr> itemLabel = setLabelIcon (getType m) (getMethodLabel m),
                                       itemUri = getUri m, itemRange = getRange m,
                                       itemCanResolveChildren = False, itemParent = Some cid,
                                       itemChildren = [] \<rparr>)],
              ctrlItems = [cid], testItemMap = (cid, d) # ts @ [(mid, m)] \<rparr>, mid)"
proof -
  let ?c = "\<lparr> items = (cid, cn) # xs, ctrlItems = [cid], testItemMap = (cid, d) # ts \<rparr>"
  let ?fresh = "\<lparr> itemLabel = setLabelIcon (getType m) (getMethodLabel m), itemUri = getUri m,
                  itemRange = None, itemCanResolveChildren = False, itemParent = None,
                  itemChildren = [] \<rparr>"
  have new: "getExistingTestItem ?c mid = None"
    using ne ts by (simp add: getExistingTestItem_def getTestItem_def map_of_new)
  have c1: "createTestItem mid (setLabelIcon (getType m) (getMethodLabel m)) (getUri m) ?c
              = \<lparr> items = (cid, cn) # xs @ [(mid, ?fresh)], ctrlItems = [cid],
                  testItemMap = (cid, d) # ts \<rparr>"
    using ne xs by (simp add: createTestItem_def update_new)
  have c2: "testItemMapSet mid m
              \<lparr> items = (cid, cn) # xs @ [(mid, ?fresh)], ctrlItems = [cid],
                testItemMap = (cid, d) # ts \<rparr>
            = \<lparr> items = (cid, cn) # xs @ [(mid, ?fresh)], ctrlItems = [cid],
                testItemMap = (cid, d) # ts @ [(mid, m)] \<rparr>"
    using ne ts by (simp add: testItemMapSet_def update_new)
  let ?c2 = "\<lparr> items = (cid, cn) # xs @ [(mid, ?fresh)], ctrlItems = [cid],
               testItemMap = (cid, d) # ts @ [(mid, m)] \<rparr>"
  have g1: "getItem ?c2 mid = Some ?fresh"
    using ne xs by (simp add: getItem_def map_of_last del: map_of_append)
  have p: "parentOf ?c2 mid = None"
    by (simp add: parentOf_def g1)
  have det: "detach mid ?c2 = ?c2"
    using ne by (simp add: detach_def p)
  have u1: "updateItem cid (\<lambda>item. item\<lparr> itemChildren := insertId mid (itemChildren item) \<rparr>) ?c2
              = \<lparr> items = (cid, cn\<lparr> itemChildren := insertId mid (itemChildren cn) \<rparr>)
                           # xs @ [(mid, ?fresh)], ctrlItems = [cid],
                  testItemMap = (cid, d) # ts @ [(mid, m)] \<rparr>"
    by (simp add: updateItem_def getItem_def)
  let ?c3 = "\<lparr> items = (cid, cn\<lparr> itemChildren := insertId mid (itemChildren cn) \<rparr>)
                           # xs @ [(mid, ?fresh)], ctrlItems = [cid],
                  testItemMap = (cid, d) # ts @ [(mid, m)] \<rparr>"
  have u: "updateItem mid f \<lparr> items = (cid, n) # xs @ [(mid, r)], ctrlItems = cs, testItemMap = tm \<rparr>
             = \<lparr> items = (cid, n) # xs @ [(mid, f r)], ctrlItems = cs, testItemMap = tm \<rparr>"
    for f n r cs tm
    using ne xs by (simp add: updateItem_def getItem_def map_of_last update_last del: map_of_append)
  have add: "childrenAdd cid mid ?c2
             = \<lparr> items = (cid, cn\<lparr> itemChildren := insertId mid (itemChildren cn) \<rparr>)
                           # xs @ [(mid, ?fresh\<lparr> itemParent := Some cid \<rparr>)], ctrlItems = [cid],
                  testItemMap = (cid, d) # ts @ [(mid, m)] \<rparr>"
    by (simp add: childrenAdd_def p det u1 u Let_def)
  show ?thesis
    using ne xs mid
    by (simp add: getMethodTestItem_def new Let_def addTestItem_def c1 c2 add u)
qed

lemma method_step:
  assumes "getType m = ItemMethod" and "getMethodId m \<noteq> getClassId d"
      and "getMethodId m \<notin> getMethodId ` set ms"
  shows "getMethodTestItem m (Some (getClassId d)) (flatCatalog env d ms)
           = (flatCatalog env d (ms @ [m]), getMethodId m)"
proof -
  have k: "getMethodId m \<notin> fst ` set (map (\<lambda>m. (getMethodId m, methodNode d m)) ms)"
    "getMethodId m \<notin> fst ` set (map (\<lambda>m. (getMethodId m, m)) ms)"
    using assms(3) by (auto simp: image_iff)
  have ins: "insertId (getMethodId m) (map getMethodId ms) = map getMethodId ms @ [getMethodId m]"
    using assms(3) by (simp add: insertId_def)
  show ?thesis
    unfolding flatCatalog_def
    by (subst method_step_shape [OF assms(2) k _ assms(1) refl])
      (simp_all add: classNode_def methodNode_def ins)
qed

lemma methods_pass:
  assumes "\<forall>m\<in>set ms. getType m = ItemMethod \<and> getMethodId m \<noteq> getClassId d"
      and "distinct (map getMethodId (seen @ ms))"
  shows "processDefinitions env w None ms (flatCatalog env d seen, Some (getClassId d), [])
           = Some (flatCatalog env d (seen @ ms), Some (getClassId d), [])"
  using assms
proof (induction ms arbitrary: seen)
  case Nil
  then show ?case by simp
next
  case (Cons m ms)
  have ty: "getType m = ItemMethod" and ne: "getMethodId m \<noteq> getClassId d"
    using Cons.prems(1) by simp_all
  have fresh: "getMethodId m \<notin> getMethodId ` set seen"
    using Cons.prems(2) by auto
  have rest: "\<forall>m\<in>set ms. getType m = ItemMethod \<and> getMethodId m \<noteq> getClassId d"
    using Cons.prems(1) by simp
  have dist: "distinct (map getMethodId ((seen @ [m]) @ ms))"
    using Cons.prems(2) by simp
  show ?case
    using Cons.IH [OF rest dist] ty
    by (simp add: method_step [OF ty ne fresh])
qed

lemma map_of_keyed:
  "distinct (map g xs) \<Longrightarrow> x \<in> set xs \<Longrightarrow> map_of (map (\<lambda>x. (g x, f x)) xs) (g x) = Some (f x)"
  by (induction xs) (auto simp: image_iff)

lemma flat_methods_in_place:
  assumes "\<forall>m\<in>set ms. getType m = ItemMethod \<and> getMethodId m \<noteq> getClassId d"
      and "distinct (map getMethodId placedMethods)" and "set ms \<subseteq> set placedMethods"
  shows "inPlace env w None (Some (getClassId d)) ms (flatCatalog env d placedMethods)"
  using assms
proof (induction ms)
  case Nil
  then show ?case by simp
next
  case (Cons m ms)
  have ty: "getType m = ItemMethod" and ne: "getMethodId m \<noteq> getClassId d" and mem: "m \<in> set placedMethods"
    using Cons.prems by simp_all
  have here: "methodInPlace (Some (getClassId d)) m (flatCatalog env d placedMethods)"
    using ne
    by (simp add: methodInPlace_def getTestDefinition_def parentOf_def getItem_def flatCatalog_def
        map_of_keyed [OF Cons.prems(2) mem] methodNode_def)
  show ?case
    using Cons ty here by simp
qed

lemma flat_class_in_place:
  assumes "isOrganizedByNamespace env = False"
  shows "classInPlace env w None d (flatCatalog env d ms)"
  using assms
  by (simp add: classInPlace_def getNamespaceTestItem_def parentOf_def getItem_def
      getTestDefinition_def flatCatalog_def classNode_def)

lemma first_pass_flat:
  assumes flat: "isOrganizedByNamespace env = False"
      and wf: "workspaceFolderFor env documentUri workspaceFolderArgument = Some workspaceFolder"
      and nosuites: "isUsingTestSuiteDefinitions env workspaceFolder = False"
      and cls: "getType d = ItemClass"
      and ms: "\<forall>m\<in>set ms. getType m = ItemMethod \<and> getMethodId m \<noteq> getClassId d"
      and dist: "distinct (map getMethodId ms)"
  shows "parseTestDocument env documentUri (d # ms) workspaceFolderArgument None emptyCatalog
           = Some (flatCatalog env d ms)
       \<and> parseTestDocument env documentUri (d # ms) workspaceFolderArgument None
           (flatCatalog env d ms) = Some (flatCatalog env d ms)"
proof
  have none: "getTestItemIdsForFile emptyCatalog documentUri = []"
    by (simp add: getTestItemIdsForFile_def emptyCatalog_def)
  have ns: "getNamespaceTestItem env workspaceFolder d None emptyCatalog = (emptyCatalog, None)"
    using flat by (simp add: getNamespaceTestItem_def)
  have pass: "processDefinitions env workspaceFolder None (d # ms) (emptyCatalog, None, [])
                = Some (flatCatalog env d ms, Some (getClassId d), [])"
    using cls methods_pass [of ms d "[]" env workspaceFolder, OF ms] dist
    by (simp add: ns class_step [OF flat])
  show "parseTestDocument env documentUri (d # ms) workspaceFolderArgument None emptyCatalog
          = Some (flatCatalog env d ms)"
    using wf nosuites pass
    by (simp add: parseTestDocument_def workspaceFolderFor_def resolveTestSuiteTestItem_def none)
next
  let ?c = "flatCatalog env d ms"
  have suite: "resolveTestSuiteTestItem env workspaceFolder documentUri None ?c = (?c, None, True)"
    using nosuites by (simp add: resolveTestSuiteTestItem_def)
  have placed: "inPlace env workspaceFolder None None (d # ms) ?c"
    using cls flat_class_in_place [OF flat] flat_methods_in_place [OF ms dist subset_refl]
    by simp
  have keys: "distinct (map fst (testItemMap ?c))"
    using ms dist by (auto simp: flatCatalog_def comp_def)
  have ids: "set (map fst (testItemMap ?c)) \<subseteq> set (definitionIds (d # ms))"
    using cls ms
    by (induction ms) (auto simp: flatCatalog_def definitionIds_def List.map_filter_simps definitionId_def)
  have owned: "set (getTestItemIdsForFile ?c documentUri) \<subseteq> set (definitionIds (d # ms))"
    using ids by (auto simp: getTestItemIdsForFile_def)
  have "fold remove1 (definitionIds (d # ms)) (getTestItemIdsForFile ?c documentUri) = []"
    using owned
    by (auto simp: fold_remove1_distinct [OF distinct_ids_for_file [OF keys]] filter_empty_conv)
  then show "parseTestDocument env documentUri (d # ms) workspaceFolderArgument None ?c = Some ?c"
    using parseTestDocument_in_place [OF wf suite placed] by simp
qed

subsection \<open>No suite for the file\<close>

lemma parseTestDocument_no_suite:
  assumes "workspaceFolderFor env documentUri workspaceFolderArgument = Some workspaceFolder"
      and "isUsingTestSuiteDefinitions env workspaceFolder"
      and "findSuiteForTestDocument env workspaceFolder documentUri = None"
  shows "parseTestDocument env documentUri testDefinitions workspaceFolderArgument None c = Some c"
  using assms
  by (simp add: parseTestDocument_def workspaceFolderFor_def resolveTestSuiteTestItem_def
      findSuiteTestItemForTestDocument_def)

text \<open>
  Claim C1, as amended. When test suites are in use and no suite of the workspace folder
  has a pattern that matches the file, reconciliation returns before it looks at the
  definitions: it returns the catalog it was given, so no node is created for the file
  and the nodes that exist stay as they are.
\<close>

theorem no_suite_leaves_catalog:
  assumes "workspaceFolderFor env documentUri workspaceFolderArgument = Some workspaceFolder"
      and "isUsingTestSuiteDefinitions env workspaceFolder"
      and "findSuiteForTestDocument env workspaceFolder documentUri = None"
  shows "parseTestDocument env documentUri testDefinitions workspaceFolderArgument None c = Some c"
  using assms by (rule parseTestDocument_no_suite)

text \<open>
  The amended claim C1 in the example workspace with suites in use: reconciliation of the
  example file from the empty catalog returns the empty catalog.
\<close>

theorem no_suite_leaves_catalog_witness:
  "workspaceFolderFor exampleSuiteEnv exampleFile None = Some ''/ws''
   \<and> isUsingTestSuiteDefinitions exampleSuiteEnv ''/ws''
   \<and> findSuiteForTestDocument exampleSuiteEnv ''/ws'' exampleFile = None
   \<and> parseTestDocument exampleSuiteEnv exampleFile [exampleClass, exampleMethod ''testOne''] None
        None emptyCatalog = Some emptyCatalog"
proof -
  have w: "workspaceFolderFor exampleSuiteEnv exampleFile None = Some ''/ws''"
    by code_simp
  have u: "isUsingTestSuiteDefinitions exampleSuiteEnv ''/ws''"
    by code_simp
  have f: "findSuiteForTestDocument exampleSuiteEnv ''/ws'' exampleFile = None"
    by code_simp
  from no_suite_leaves_catalog [OF w u f] w u f show ?thesis by simp
qed

text \<open>
  Claim C1 as stated fails: the class and its method are registered for the example
  file; with suites in use and no matching suite, reconciliation leaves both registered.
\<close>

theorem no_suite_leaves_catalog_counterexample:
  "findSuiteForTestDocument exampleSuiteEnv ''/ws'' exampleFile = None
   \<and> map_option registeredIds
       (Option.bind (reconcile exampleEnv [exampleClass, exampleMethod ''testOne''] emptyCatalog)
          (reconcile exampleSuiteEnv [exampleClass, exampleMethod ''testOne'']))
     = Some [exampleFile, exampleFile @ ''::testOne'']"
  by code_simp

subsection \<open>A second pass with the same definitions\<close>




subsection \<open>A second pass with one method less\<close>




end
